theory Spec2Isabelle
  imports Complex_Main
begin

section \<open>Strings\<close>

text \<open>
  A JavaScript string is a sequence of UTF-16 code units; a HOL character stands for a
  code unit below 256, and text with other code units is outside the model.
  \<open>String.prototype.trim\<close> removes white space and line terminators from both
  ends; among the code units below 256 these are TAB, LF, VT, FF, CR, SPACE and the
  no-break space.
\<close>

definition is_space :: "char \<Rightarrow> bool" where
  "is_space c = (c = CHR 0x09 \<or> c = CHR 0x0A \<or> c = CHR 0x0B \<or> c = CHR 0x0C
                 \<or> c = CHR 0x0D \<or> c = CHR 0x20 \<or> c = CHR 0xA0)"

definition trim :: "string \<Rightarrow> string" where
  "trim s = rev (dropWhile is_space (rev (dropWhile is_space s)))"

text \<open>The decimal digits of a number, as a template literal prints \<open>${currentPage}\<close>.\<close>

definition digit_char :: "nat \<Rightarrow> char" where
  "digit_char d = ''0123456789'' ! d"

fun string_of_nat :: "nat \<Rightarrow> string" where
  "string_of_nat n =
     (if n < 10 then [digit_char n]
      else string_of_nat (n div 10) @ [digit_char (n mod 10)])"

section \<open>Constants of the two scraper files\<close>

definition BASE_URL :: string where
  "BASE_URL = ''https://pcpartpicker.com/products''"

definition STAGING_DIRECTORY :: string where
  "STAGING_DIRECTORY = ''data-staging''"

definition ALL_ENDPOINTS :: "string list" where
  "ALL_ENDPOINTS =
     [''cpu'', ''cpu-cooler'', ''motherboard'', ''memory'', ''internal-hard-drive'',
      ''video-card'', ''case'', ''power-supply'', ''os'', ''monitor'', ''sound-card'',
      ''wired-network-card'', ''wireless-network-card'', ''headphones'', ''keyboard'',
      ''mouse'', ''speakers'', ''webcam'', ''case-accessory'', ''case-fan'',
      ''fan-controller'', ''thermal-paste'', ''external-hard-drive'', ''optical-drive'',
      ''ups'']"

text \<open>
  \<open>cpuSockets\<close> is an object literal read with \<open>Object.entries\<close> and
  \<open>Object.keys\<close>. None of its keys is an array index, so both enumerate the
  properties in the order of the literal: the table is an association list in that order.
  The first table is the one of \<open>src/Motherboard/src/scraper.ts\<close> (lines 48-53),
  the second the one of \<open>src/unnamed/part_000\<close> (lines 48-74).
\<close>

definition cpuSockets_Motherboard :: "(string \<times> string) list" where
  "cpuSockets_Motherboard =
     [(''DDR2'', ''#mt=ddr2''), (''DDR3'', ''#mt=ddr3''),
      (''DDR4'', ''#mt=ddr4''), (''DDR5'', ''#mt=ddr5'')]"

definition cpuSockets_part_000 :: "(string \<times> string) list" where
  "cpuSockets_part_000 =
     [(''AM1'', ''#k=27''), (''AM2p'', ''#k=2''), (''AM3'', ''#k=3''), (''AM3p'', ''#k=4''),
      (''AM4'', ''#k=33''), (''AM5'', ''#k=41''), (''FM1'', ''#k=20''), (''FM2'', ''#k=23''),
      (''FM2p'', ''#k=26''), (''G34'', ''#k=31''), (''LGA771'', ''#k=12''),
      (''LGA775'', ''#k=13''), (''LGA1150'', ''#k=24''), (''LGA1151'', ''#k=30''),
      (''LGA1155'', ''#k=14''), (''LGA1156'', ''#k=15''), (''LGA1200'', ''#k=39''),
      (''LGA1356'', ''#k=37''), (''LGA1366'', ''#k=16''), (''LGA1700'', ''#k=40''),
      (''LGA2011'', ''#k=21''), (''LGA2011_3'', ''#k=28''), (''LGA2066'', ''#k=35''),
      (''sTR4'', ''#k=36''), (''sTRX4'', ''#k=38'')]"

text \<open>
  The listing URL of a variant (\<open>fullUrl\<close>, the same in both files) and the URL
  of a later page, which the two files build differently:
  \<open>`${BASE_URL}/${endpoint}/${socketUrl}&page=${currentPage}`\<close> in
  \<open>Motherboard/src/scraper.ts\<close> (line 128) and
  \<open>`${BASE_URL}/${endpoint}/#page=${currentPage}`\<close> in \<open>part_000\<close>
  (line 149).
\<close>

definition fullUrl :: "string \<Rightarrow> string \<Rightarrow> string" where
  "fullUrl endpoint socketUrl = BASE_URL @ ''/'' @ endpoint @ ''/'' @ socketUrl"

definition pageUrl_Motherboard :: "string \<Rightarrow> string \<Rightarrow> nat \<Rightarrow> string" where
  "pageUrl_Motherboard endpoint socketUrl currentPage =
     BASE_URL @ ''/'' @ endpoint @ ''/'' @ socketUrl @ ''&page='' @ string_of_nat currentPage"

definition pageUrl_part_000 :: "string \<Rightarrow> string \<Rightarrow> nat \<Rightarrow> string" where
  "pageUrl_part_000 endpoint socketUrl currentPage =
     BASE_URL @ ''/'' @ endpoint @ ''/'' @ ''#page='' @ string_of_nat currentPage"

text \<open>
  The two files are the same program but for the variant table and the page URL. A
  \<open>scraper\<close> holds the two, and every function below takes it as a parameter.
\<close>

record scraper =
  cpuSockets :: "(string \<times> string) list"
  pageUrl :: "string \<Rightarrow> string \<Rightarrow> nat \<Rightarrow> string"

definition Motherboard :: scraper where
  "Motherboard = \<lparr>cpuSockets = cpuSockets_Motherboard, pageUrl = pageUrl_Motherboard\<rparr>"

definition part_000 :: scraper where
  "part_000 = \<lparr>cpuSockets = cpuSockets_part_000, pageUrl = pageUrl_part_000\<rparr>"

section \<open>Values, errors and the rendered pages\<close>

text \<open>
  A \<open>Part\<close> is an object built by assignments \<open>serialized[key] = value\<close>:
  an association list in insertion order, where assigning to a key that is already there
  replaces its value in place. Numbers are a type parameter (floating point is not
  modelled).
\<close>

datatype 'n jsvalue =
    Null
  | Undefined
  | Num 'n
  | Str string
  | Bool bool
  | Arr "'n jsvalue list"
  | Obj "(string \<times> 'n jsvalue) list"

type_synonym 'n part = "(string \<times> 'n jsvalue) list"

fun set_prop :: "string \<Rightarrow> 'v \<Rightarrow> (string \<times> 'v) list \<Rightarrow> (string \<times> 'v) list" where
  "set_prop k v [] = [(k, v)]"
| "set_prop k v ((k', v') # ps) =
     (if k' = k then (k, v) # ps else (k', v') # set_prop k v ps)"

text \<open>
  The tables \<open>map[endpoint]\<close> and \<open>customSerializers[endpoint]\<close> are plain
  objects, and \<open>table[key]\<close> reads through the prototype chain: a key that the table
  does not own but that names a member of \<open>Object.prototype\<close> finds that member
  (a function, or the prototype itself for \<open>__proto__\<close>) and not
  \<open>undefined\<close>. The endpoints of a run are taken to be \<open>PartType\<close>s, as
  the cast of the command line in the last lines of the file has it: none of them names
  such a member, and \<open>map[endpoint]\<close> and \<open>customSerializers[endpoint]\<close>
  are lookups of own entries.
\<close>

definition objectPrototype :: "string list" where
  "objectPrototype =
     [''constructor'', ''__defineGetter__'', ''__defineSetter__'', ''hasOwnProperty'',
      ''__lookupGetter__'', ''__lookupSetter__'', ''isPrototypeOf'',
      ''propertyIsEnumerable'', ''toString'', ''valueOf'', ''__proto__'',
      ''toLocaleString'']"

datatype 'a property = Own 'a | Inherited | Absent

definition getProperty :: "(string \<Rightarrow> 'a option) \<Rightarrow> string \<Rightarrow> 'a property" where
  "getProperty table key =
     (case table key of
        Some v \<Rightarrow> Own v
      | None \<Rightarrow> if key \<in> set objectPrototype then Inherited else Absent)"

text \<open>
  Everything that the scraper or one of its collaborators can throw. The argument of
  \<open>NoMappingFound\<close> is the trimmed label of the message
  \<open>No mapping found for spec '...'\<close>; \<open>TypeError\<close> is what reading a property
  of \<open>undefined\<close>, calling \<open>undefined\<close> or destructuring a value that is
  not iterable raises; \<open>NoElement\<close> is
  the rejection of \<open>$eval\<close> when no element matches the selector;
  \<open>WaitTimeout\<close> the one of \<open>waitForSelector\<close>; \<open>NavigationFailed\<close>
  the one of \<open>page.goto\<close> or \<open>waitForNetworkIdle\<close>; \<open>SerializerFailed\<close>
  is raised by a serializer.
\<close>

datatype error =
    NoMappingFound string
  | TypeError
  | NoElement string
  | WaitTimeout string
  | NavigationFailed string
  | SerializerFailed string

text \<open>
  What the browser shows. A spec cell \<open>td.td__spec\<close> has the text of its
  \<open>.specLabel\<close> (if it has one) and its own \<open>innerText\<close>. A product row
  \<open>.tr__product\<close> has the text of its name paragraph (if it has one), its price
  cell (absent, or with a \<open>textContent\<close> that may be \<open>null\<close>) and its spec
  cells. A document has a \<open>nav\<close> element or not, a pagination control and
  product rows. \<open>LastItem n\<close> is a control whose last item parses
  (\<open>parseInt\<close>) to \<open>n\<close>, \<open>None\<close> standing for \<open>NaN\<close>.
\<close>

record spec_el =
  specLabel :: "string option"
  innerText :: string

datatype price_cell = NoPriceCell | PriceCell "string option"

record product_el =
  nameText :: "string option"
  priceCell :: price_cell
  specs :: "spec_el list"

datatype pagination = NoPagination | NoLastItem | LastItem "int option"

record document =
  nav :: bool
  pagination :: pagination
  products :: "product_el list"

text \<open>
  The collaborators of \<open>scrape\<close> that are not in the two files: the serialization
  map (\<open>serialization-map.json\<close>: endpoint, then label, to the pair of field name and
  serialization type), the serializers of \<open>./serializers\<close>, each of which may
  throw, and the site, which maps a URL to the document that is shown once
  \<open>page.goto\<close> and \<open>waitForNetworkIdle\<close> have returned, or to what they
  throw. The site answers a URL in the same way throughout a run.
  \<open>serializeNumber\<close> returns a number. \<open>inheritedCall endpoint member text\<close>
  is what the engine returns or throws for
  \<open>customSerializers[endpoint][member](text)\<close> when \<open>member\<close> is not a
  serializer of the endpoint but a member of \<open>Object.prototype\<close> (for example the
  string \<open>[object Object]\<close> for \<open>toString\<close>, an error for
  \<open>__proto__\<close>, which is not a function).
\<close>

record 'n env =
  serializationMap :: "string \<Rightarrow> (string \<Rightarrow> (string \<times> string) option) option"
  customSerializers :: "string \<Rightarrow> (string \<Rightarrow> (string \<Rightarrow> error + 'n jsvalue) option) option"
  genericSerialize :: "string \<Rightarrow> string \<Rightarrow> error + 'n jsvalue"
  serializeNumber :: "string \<Rightarrow> error + 'n"
  inheritedCall :: "string \<Rightarrow> string \<Rightarrow> string \<Rightarrow> error + 'n jsvalue"
  site :: "string \<Rightarrow> error + document"

section \<open>Effects\<close>

text \<open>
  A computation returns the log of the navigations and serializer calls that it made, in
  order, and a value or the error that it threw.
\<close>

datatype event =
    Goto string
  | SerializeNumber string
  | GenericSerialize string string
  | CustomSerialize string string string

type_synonym 'a eff = "event list \<times> (error + 'a)"

definition ret :: "'a \<Rightarrow> 'a eff" where
  "ret x = ([], Inr x)"

definition raise :: "error \<Rightarrow> 'a eff" where
  "raise e = ([], Inl e)"

definition perform :: "event \<Rightarrow> error + 'a \<Rightarrow> 'a eff" where
  "perform ev r = ([ev], r)"

definition and_then :: "'a eff \<Rightarrow> ('a \<Rightarrow> 'b eff) \<Rightarrow> 'b eff" where
  "and_then m f =
     (case m of
        (es, Inl e) \<Rightarrow> (es, Inl e)
      | (es, Inr x) \<Rightarrow> (case f x of (es', r) \<Rightarrow> (es @ es', r)))"

definition goto :: "'n env \<Rightarrow> string \<Rightarrow> document eff" where
  "goto env url = perform (Goto url) (site env url)"

section \<open>The record extractor\<close>

text \<open>
  \<open>Object.keys(cpuSockets).find((key) => cpuSockets[key] === socketUrl)\<close>, printed
  by the template literal (\<open>undefined\<close> prints as the word).
\<close>

definition socketName :: "(string \<times> string) list \<Rightarrow> string \<Rightarrow> string" where
  "socketName sockets socketUrl =
     (case find (\<lambda>key. map_of sockets key = Some socketUrl) (map fst sockets) of
        None \<Rightarrow> ''undefined''
      | Some key \<Rightarrow> key)"

text \<open>
  The body of the loop over the spec cells (lines 158-182). A label that the table of
  the endpoint does not own gives \<open>undefined\<close> and the error of line 165, unless
  it names a member of \<open>Object.prototype\<close>: then \<open>mapped\<close> is that member,
  the test of line 164 passes, and the destructuring of line 167 throws a
  \<open>TypeError\<close>. A custom field that the registry of the endpoint does not own
  gives a call of \<open>undefined\<close>, unless it names such a member, which is then
  called.
\<close>

definition scrape_spec :: "'n env \<Rightarrow> string \<Rightarrow> 'n part \<Rightarrow> spec_el \<Rightarrow> 'n part eff" where
  "scrape_spec env endpoint serialized spec =
     (case specLabel spec of
        None \<Rightarrow> raise (NoElement ''.specLabel'')
      | Some label \<Rightarrow>
          (let specName = trim label in
           case serializationMap env endpoint of
             None \<Rightarrow> raise TypeError
           | Some table \<Rightarrow>
               (case getProperty table specName of
                  Absent \<Rightarrow> raise (NoMappingFound specName)
                | Inherited \<Rightarrow> raise TypeError
                | Own (snakeSpecName, mappedSpecSerializationType) \<Rightarrow>
                    (let specValue = innerText spec in
                     if trim specValue = [] then
                       ret (set_prop snakeSpecName Null serialized)
                     else if mappedSpecSerializationType = ''custom'' then
                       (case customSerializers env endpoint of
                          None \<Rightarrow> raise TypeError
                        | Some registered \<Rightarrow>
                            (case getProperty registered snakeSpecName of
                               Absent \<Rightarrow> raise TypeError
                             | Inherited \<Rightarrow>
                                 and_then
                                   ([], inheritedCall env endpoint snakeSpecName specValue)
                                   (\<lambda>v. ret (set_prop snakeSpecName v serialized))
                             | Own f \<Rightarrow>
                                 and_then
                                   (perform (CustomSerialize endpoint snakeSpecName specValue)
                                      (f specValue))
                                   (\<lambda>v. ret (set_prop snakeSpecName v serialized))))
                     else
                       and_then
                         (perform (GenericSerialize specValue mappedSpecSerializationType)
                            (genericSerialize env specValue mappedSpecSerializationType))
                         (\<lambda>v. ret (set_prop snakeSpecName v serialized))))))"

fun scrape_specs :: "'n env \<Rightarrow> string \<Rightarrow> 'n part \<Rightarrow> spec_el list \<Rightarrow> 'n part eff" where
  "scrape_specs env endpoint serialized [] = ret serialized"
| "scrape_specs env endpoint serialized (spec # rest) =
     (case scrape_spec env endpoint serialized spec of
        (es, Inl e) \<Rightarrow> (es, Inl e)
      | (es, Inr serialized') \<Rightarrow>
          (case scrape_specs env endpoint serialized' rest of
             (es', r) \<Rightarrow> (es @ es', r)))"

text \<open>The price of a product row (lines 147-154).\<close>

definition scrape_price :: "'n env \<Rightarrow> 'n part \<Rightarrow> string option \<Rightarrow> 'n part eff" where
  "scrape_price env serialized priceText =
     (case priceText of
        None \<Rightarrow> ret (set_prop ''price'' Null serialized)
      | Some text \<Rightarrow>
          if trim text = [] then ret (set_prop ''price'' Null serialized)
          else
            and_then (perform (SerializeNumber text) (serializeNumber env text))
              (\<lambda>n. ret (set_prop ''price'' (Num n) serialized)))"

text \<open>The body of the loop over the product rows (lines 135-182).\<close>

definition scrape_product ::
  "'n env \<Rightarrow> scraper \<Rightarrow> string \<Rightarrow> string \<Rightarrow> product_el \<Rightarrow> 'n part eff" where
  "scrape_product env cfg endpoint socketUrl productEl =
     (case nameText productEl of
        None \<Rightarrow> raise (NoElement ''.td__name .td__nameWrapper > p'')
      | Some title \<Rightarrow>
          (let serialized =
                 set_prop ''name''
                   (Str (socketName (cpuSockets cfg) socketUrl @ '' '' @ title)) []
           in case priceCell productEl of
                NoPriceCell \<Rightarrow> raise (NoElement ''.td__price'')
              | PriceCell priceText \<Rightarrow>
                  and_then (scrape_price env serialized priceText)
                    (\<lambda>serialized'. scrape_specs env endpoint serialized' (specs productEl))))"

text \<open>
  The loop over the product rows of one page; \<open>pageProducts\<close> is the array that the
  loop pushes to. When a row throws, the array is lost with the frame of the generator.
\<close>

fun scrape_products ::
  "'n env \<Rightarrow> scraper \<Rightarrow> string \<Rightarrow> string \<Rightarrow> 'n part list \<Rightarrow> product_el list
     \<Rightarrow> 'n part list eff" where
  "scrape_products env cfg endpoint socketUrl pageProducts [] = ret pageProducts"
| "scrape_products env cfg endpoint socketUrl pageProducts (productEl # rest) =
     (case scrape_product env cfg endpoint socketUrl productEl of
        (es, Inl e) \<Rightarrow> (es, Inl e)
      | (es, Inr serialized) \<Rightarrow>
          (case scrape_products env cfg endpoint socketUrl (pageProducts @ [serialized]) rest of
             (es', r) \<Rightarrow> (es @ es', r)))"

section \<open>The pagination traversal\<close>

text \<open>
  \<open>scrape\<close> is an async generator that ends after finitely many steps. Its meaning is
  what a consumer that drains it sees: the log of its effects, the batches that it yielded,
  in order, and the error that ended it, if one did.
\<close>

record 'n traversal =
  effects :: "event list"
  yielded :: "'n part list list"
  thrown :: "error option"

text \<open>
  The values that \<open>currentPage\<close> takes in
  \<open>for (let currentPage = 1; currentPage <= numPages; currentPage++)\<close>: none when
  \<open>numPages\<close> is \<open>NaN\<close> or below 1.
\<close>

definition pageNumbers :: "int option \<Rightarrow> nat list" where
  "pageNumbers numPages =
     (case numPages of None \<Rightarrow> [] | Some n \<Rightarrow> [1 ..< Suc (nat n)])"

text \<open>
  \<open>waitForSelector('.pagination')\<close> followed by
  \<open>$eval('li:last-child', (el) => parseInt(el.innerText))\<close> (lines 112-122).
\<close>

definition readNumPages :: "document \<Rightarrow> error + int option" where
  "readNumPages doc =
     (case pagination doc of
        NoPagination \<Rightarrow> Inl (WaitTimeout ''.pagination'')
      | NoLastItem \<Rightarrow> Inl (NoElement ''li:last-child'')
      | LastItem n \<Rightarrow> Inr n)"

text \<open>
  The loop over the pages of one variant (lines 124-188). \<open>doc\<close> is the document that
  the browser shows when the iteration begins.
\<close>

fun scrape_pages ::
  "'n env \<Rightarrow> scraper \<Rightarrow> string \<Rightarrow> string \<Rightarrow> document \<Rightarrow> nat list \<Rightarrow> 'n traversal" where
  "scrape_pages env cfg endpoint socketUrl doc [] =
     \<lparr>effects = [], yielded = [], thrown = None\<rparr>"
| "scrape_pages env cfg endpoint socketUrl doc (currentPage # rest) =
     (case (if currentPage > 1 then goto env (pageUrl cfg endpoint socketUrl currentPage)
            else ret doc) of
        (es, Inl e) \<Rightarrow> \<lparr>effects = es, yielded = [], thrown = Some e\<rparr>
      | (es, Inr doc') \<Rightarrow>
          (case scrape_products env cfg endpoint socketUrl [] (products doc') of
             (es', Inl e) \<Rightarrow> \<lparr>effects = es @ es', yielded = [], thrown = Some e\<rparr>
           | (es', Inr pageProducts) \<Rightarrow>
               (let r = scrape_pages env cfg endpoint socketUrl doc' rest
                in \<lparr>effects = es @ es' @ effects r,
                    yielded = pageProducts # yielded r,
                    thrown = thrown r\<rparr>)))"

text \<open>The loop over the entries of \<open>cpuSockets\<close> (lines 107-189).\<close>

fun scrape_sockets ::
  "'n env \<Rightarrow> scraper \<Rightarrow> string \<Rightarrow> (string \<times> string) list \<Rightarrow> 'n traversal" where
  "scrape_sockets env cfg endpoint [] = \<lparr>effects = [], yielded = [], thrown = None\<rparr>"
| "scrape_sockets env cfg endpoint ((key, socketUrl) # rest) =
     (case goto env (fullUrl endpoint socketUrl) of
        (es, Inl e) \<Rightarrow> \<lparr>effects = es, yielded = [], thrown = Some e\<rparr>
      | (es, Inr doc) \<Rightarrow>
          (case readNumPages doc of
             Inl e \<Rightarrow> \<lparr>effects = es, yielded = [], thrown = Some e\<rparr>
           | Inr numPages \<Rightarrow>
               (let r = scrape_pages env cfg endpoint socketUrl doc (pageNumbers numPages)
                in case thrown r of
                     Some e \<Rightarrow>
                       \<lparr>effects = es @ effects r, yielded = yielded r, thrown = Some e\<rparr>
                   | None \<Rightarrow>
                       (let r' = scrape_sockets env cfg endpoint rest
                        in \<lparr>effects = es @ effects r @ effects r',
                            yielded = yielded r @ yielded r',
                            thrown = thrown r'\<rparr>))))"

definition scrape :: "'n env \<Rightarrow> scraper \<Rightarrow> string \<Rightarrow> 'n traversal" where
  "scrape env cfg endpoint = scrape_sockets env cfg endpoint (cpuSockets cfg)"

section \<open>The orchestrator\<close>

text \<open>
  What a run leaves behind: the warnings on the console (the endpoint and the error of
  \<open>[${endpoint}] Aborted unexpectedly: ${error}\<close>) and the calls of
  \<open>writeFile\<close>, each with its path and the array that \<open>JSON.stringify\<close> was
  given. The worker pool, the 20 minute limit of a task and the encoding of the file are
  not modelled, and \<open>mkdir\<close>, \<open>setViewport\<close> and \<open>writeFile\<close> are
  taken to succeed: a task owns its page, and tasks meet only in these two lists, which
  are kept in the order of the queue.
\<close>

record 'n outputs =
  console :: "(string \<times> error) list"
  written :: "(string \<times> 'n part list) list"

definition jsonPath :: "string \<Rightarrow> string" where
  "jsonPath endpoint = STAGING_DIRECTORY @ ''/'' @ ''json'' @ ''/'' @ endpoint @ ''.json''"

text \<open>
  The task of the cluster (lines 73-90): \<open>allParts.push(...pageParts)\<close> for every
  batch that the generator yields, a warning when it throws, and then the file, in
  either case.
\<close>

definition drain :: "'n part list list \<Rightarrow> 'n part list" where
  "drain batches = foldl (\<lambda>allParts pageParts. allParts @ pageParts) [] batches"

definition task :: "'n env \<Rightarrow> scraper \<Rightarrow> 'n outputs \<Rightarrow> string \<Rightarrow> 'n outputs" where
  "task env cfg out endpoint =
     (let r = scrape env cfg endpoint;
          allParts = drain (yielded r);
          warned = (case thrown r of
                      None \<Rightarrow> console out
                    | Some error \<Rightarrow> console out @ [(endpoint, error)])
      in \<lparr>console = warned, written = written out @ [(jsonPath endpoint, allParts)]\<rparr>)"

text \<open>
  The first job of the queue (lines 92-99) opens the site and waits for its
  \<open>nav\<close>; only then does it queue the endpoints. When it throws, the cluster drops
  the job and nothing is queued.
\<close>

definition seed :: "'n env \<Rightarrow> error + unit" where
  "seed env =
     (case site env ''https://pcpartpicker.com'' of
        Inl e \<Rightarrow> Inl e
      | Inr doc \<Rightarrow> if nav doc then Inr () else Inl (WaitTimeout ''nav''))"

definition scrapeInParallel :: "'n env \<Rightarrow> scraper \<Rightarrow> string list \<Rightarrow> 'n outputs" where
  "scrapeInParallel env cfg endpoints =
     (case seed env of
        Inl e \<Rightarrow> \<lparr>console = [], written = []\<rparr>
      | Inr u \<Rightarrow> foldl (task env cfg) \<lparr>console = [], written = []\<rparr> endpoints)"

text \<open>The last lines of the file: the endpoints of the command line, or all of them.\<close>

definition endpointsToScrape :: "string list \<Rightarrow> string list" where
  "endpointsToScrape inputEndpoints =
     (if inputEndpoints \<noteq> [] then inputEndpoints else ALL_ENDPOINTS)"

section \<open>The declared order of a traversal\<close>

text \<open>
  The order that the specification promises, written down on its own so that the
  generator can be compared with it. \<open>navigated\<close> reads the navigations off a log of
  effects. \<open>pageDocument\<close> is the document of page \<open>currentPage\<close> of a variant:
  the listing itself for the first page, the page's own URL for a later one.
  \<open>pageBatch\<close> is the batch of that page: the records of all its product rows, or
  the error of the first row that throws. \<open>variantPages\<close> are the page numbers of a
  variant, 1 to \<open>numPages\<close> in ascending order (none when the listing or its
  pagination control cannot be read), and \<open>declaredVisits\<close> lists the pages of all
  variants: variants in the order of the table, pages in ascending order within each.
  \<open>declaredNavigations\<close> are the URLs to open for them: a variant's listing, then
  its later pages.
\<close>

fun navigated :: "event list \<Rightarrow> string list" where
  "navigated [] = []"
| "navigated (Goto url # es) = url # navigated es"
| "navigated (ev # es) = navigated es"

definition pageDocument ::
  "'n env \<Rightarrow> scraper \<Rightarrow> string \<Rightarrow> string \<Rightarrow> nat \<Rightarrow> error + document" where
  "pageDocument env cfg endpoint socketUrl currentPage =
     site env (if currentPage > 1 then pageUrl cfg endpoint socketUrl currentPage
               else fullUrl endpoint socketUrl)"

definition pageBatch ::
  "'n env \<Rightarrow> scraper \<Rightarrow> string \<Rightarrow> string \<Rightarrow> nat \<Rightarrow> error + 'n part list" where
  "pageBatch env cfg endpoint socketUrl currentPage =
     (case pageDocument env cfg endpoint socketUrl currentPage of
        Inl e \<Rightarrow> Inl e
      | Inr doc \<Rightarrow> snd (scrape_products env cfg endpoint socketUrl [] (products doc)))"

definition variantPages :: "'n env \<Rightarrow> string \<Rightarrow> string \<Rightarrow> nat list" where
  "variantPages env endpoint socketUrl =
     (case site env (fullUrl endpoint socketUrl) of
        Inl e \<Rightarrow> []
      | Inr doc \<Rightarrow> (case readNumPages doc of Inl e \<Rightarrow> [] | Inr numPages \<Rightarrow> pageNumbers numPages))"

definition declaredVisits ::
  "'n env \<Rightarrow> string \<Rightarrow> (string \<times> string) list \<Rightarrow> (string \<times> nat) list" where
  "declaredVisits env endpoint sockets =
     concat (map (\<lambda>(key, socketUrl).
                    map (Pair socketUrl) (variantPages env endpoint socketUrl)) sockets)"

definition declaredNavigations ::
  "'n env \<Rightarrow> scraper \<Rightarrow> string \<Rightarrow> (string \<times> string) list \<Rightarrow> string list" where
  "declaredNavigations env cfg endpoint sockets =
     concat (map (\<lambda>(key, socketUrl).
                    fullUrl endpoint socketUrl
                    # map (pageUrl cfg endpoint socketUrl)
                        (filter (\<lambda>p. 1 < p) (variantPages env endpoint socketUrl))) sockets)"

text \<open>
  The steps of a traversal, for the question of where it fails: for every variant, in
  the order of the table, the opening of its listing (the listing is loaded and its
  pagination control is read), then its pages in ascending order. \<open>stepResult\<close> is
  what a step gives when it is reached: the batches that it yields (none for a listing,
  the batch of the whole page for a page), or its error.
\<close>

datatype step = Listing string | Page string nat

definition declaredSteps :: "'n env \<Rightarrow> string \<Rightarrow> (string \<times> string) list \<Rightarrow> step list" where
  "declaredSteps env endpoint sockets =
     concat (map (\<lambda>(key, socketUrl).
                    Listing socketUrl
                    # map (Page socketUrl) (variantPages env endpoint socketUrl)) sockets)"

fun stepResult :: "'n env \<Rightarrow> scraper \<Rightarrow> string \<Rightarrow> step \<Rightarrow> error + 'n part list list" where
  "stepResult env cfg endpoint (Listing socketUrl) =
     (case site env (fullUrl endpoint socketUrl) of
        Inl e \<Rightarrow> Inl e
      | Inr doc \<Rightarrow> (case readNumPages doc of Inl e \<Rightarrow> Inl e | Inr numPages \<Rightarrow> Inr []))"
| "stepResult env cfg endpoint (Page socketUrl currentPage) =
     (case pageBatch env cfg endpoint socketUrl currentPage of
        Inl e \<Rightarrow> Inl e
      | Inr pageProducts \<Rightarrow> Inr [pageProducts])"


section \<open>A fixture site\<close>

text \<open>
  A small site for the concrete instances below. Its map knows the labels \<open>Speed\<close>
  (custom) and \<open>Color\<close> (generic) for five endpoints, its number serializer knows one
  price and throws on any other text, and every URL that is not listed shows a one-page
  listing without products. The registry of custom serializers knows the field
  \<open>speed\<close>, except for the endpoint \<open>headphones\<close>, whose registry is empty.
  \<open>fx_inherited\<close> is what the members of \<open>Object.prototype\<close> return when they
  are called on a registry with the text of a cell (a \<open>String\<close> object, which
  \<open>JSON.stringify\<close> writes as its string, for \<open>constructor\<close>; the registry
  itself, whose members are functions and are not written, for \<open>valueOf\<close>).
\<close>

definition fx_table :: "string \<Rightarrow> (string \<times> string) option" where
  "fx_table = [''Speed'' \<mapsto> (''speed'', ''custom''), ''Color'' \<mapsto> (''color'', ''string'')]"

definition fx_map :: "string \<Rightarrow> (string \<Rightarrow> (string \<times> string) option) option" where
  "fx_map = [''memory'' \<mapsto> fx_table, ''keyboard'' \<mapsto> fx_table, ''mouse'' \<mapsto> fx_table,
             ''speakers'' \<mapsto> fx_table, ''headphones'' \<mapsto> fx_table]"

definition fx_speed :: "string \<Rightarrow> error + rat jsvalue" where
  "fx_speed v = Inr (Arr [Str (trim v)])"

definition fx_registered :: "string \<Rightarrow> (string \<Rightarrow> error + rat jsvalue) option" where
  "fx_registered = [''speed'' \<mapsto> fx_speed]"

definition fx_custom ::
  "string \<Rightarrow> (string \<Rightarrow> (string \<Rightarrow> error + rat jsvalue) option) option" where
  "fx_custom = [''memory'' \<mapsto> fx_registered, ''keyboard'' \<mapsto> fx_registered,
                ''mouse'' \<mapsto> fx_registered, ''speakers'' \<mapsto> fx_registered,
                ''headphones'' \<mapsto> Map.empty]"

definition fx_generic :: "string \<Rightarrow> string \<Rightarrow> error + rat jsvalue" where
  "fx_generic v ty = Inr (Str (trim v))"

definition fx_inherited :: "string \<Rightarrow> string \<Rightarrow> string \<Rightarrow> error + rat jsvalue" where
  "fx_inherited endpoint member v =
     (if member = ''toString'' \<or> member = ''toLocaleString'' then Inr (Str ''[object Object]'')
      else if member = ''constructor'' then Inr (Str v)
      else if member = ''valueOf'' then Inr (Obj [])
      else if member = ''isPrototypeOf'' then Inr (Bool False)
      else if member = ''hasOwnProperty'' \<or> member = ''propertyIsEnumerable'' then
        Inr (Bool (case fx_custom endpoint of
                     None \<Rightarrow> False
                   | Some registered \<Rightarrow>
                       (case registered v of None \<Rightarrow> False | Some f \<Rightarrow> True)))
      else if member = ''__lookupGetter__'' \<or> member = ''__lookupSetter__'' then Inr Undefined
      else Inl TypeError)"

definition fx_number :: "string \<Rightarrow> error + rat" where
  "fx_number t =
     (if trim t = ''$129.99'' then Inr (12999 / 100) else Inl (SerializerFailed t))"

definition fx_blank :: spec_el where
  "fx_blank = \<lparr>specLabel = Some ''Color'', innerText = ''  ''\<rparr>"

definition fx_speed_cell :: spec_el where
  "fx_speed_cell = \<lparr>specLabel = Some '' Speed '', innerText = ''DDR4-3200''\<rparr>"

definition fx_lower_case :: spec_el where
  "fx_lower_case = \<lparr>specLabel = Some '' color '', innerText = ''Red''\<rparr>"

definition fx_priced :: product_el where
  "fx_priced =
     \<lparr>nameText = Some ''Vengeance'', priceCell = PriceCell (Some '' $129.99 ''),
      specs = [fx_speed_cell, fx_blank]\<rparr>"

definition fx_unpriced :: product_el where
  "fx_unpriced = \<lparr>nameText = Some ''Fury'', priceCell = PriceCell (Some ''  ''), specs = []\<rparr>"

definition fx_malformed :: product_el where
  "fx_malformed =
     \<lparr>nameText = Some ''Ripjaws'', priceCell = PriceCell (Some ''Call''), specs = []\<rparr>"

definition fx_unmapped :: product_el where
  "fx_unmapped =
     \<lparr>nameText = Some ''Ballistix'', priceCell = PriceCell None,
      specs = [\<lparr>specLabel = Some ''Color'', innerText = ''Red''\<rparr>, fx_lower_case,
               \<lparr>specLabel = Some ''Color'', innerText = ''Blue''\<rparr>]\<rparr>"


definition fx_constructor :: spec_el where
  "fx_constructor = \<lparr>specLabel = Some '' constructor '', innerText = ''Logitech''\<rparr>"

definition fx_prototype :: product_el where
  "fx_prototype =
     \<lparr>nameText = Some ''Pebble'', priceCell = PriceCell (Some '' $129.99 ''),
      specs = [\<lparr>specLabel = Some ''Color'', innerText = ''Black''\<rparr>, fx_constructor,
               fx_speed_cell]\<rparr>"

definition fx_listing :: "int \<Rightarrow> product_el list \<Rightarrow> document" where
  "fx_listing n rows = \<lparr>nav = True, pagination = LastItem (Some n), products = rows\<rparr>"

definition fx_pages :: "(string \<times> document) list" where
  "fx_pages =
     [(''https://pcpartpicker.com/products/memory/#mt=ddr2'', fx_listing 2 [fx_unpriced]),
      (''https://pcpartpicker.com/products/memory/#mt=ddr2&page=2'', fx_listing 2 [fx_priced]),
      (''https://pcpartpicker.com/products/keyboard/#mt=ddr2'',
         fx_listing 1 [fx_priced, fx_unpriced, fx_malformed]),
      (''https://pcpartpicker.com/products/mouse/#mt=ddr2'', fx_listing 1 [fx_priced]),
      (''https://pcpartpicker.com/products/mouse/#mt=ddr3'', fx_listing 2 [fx_unpriced]),
      (''https://pcpartpicker.com/products/mouse/#mt=ddr3&page=2'',
         fx_listing 2 [fx_unpriced, fx_unmapped, fx_priced]),
      (''https://pcpartpicker.com/products/speakers/#mt=ddr2'', fx_listing 2 [fx_unpriced]),
      (''https://pcpartpicker.com/products/speakers/#mt=ddr2&page=2'',
         fx_listing 2 [fx_unpriced, fx_prototype, fx_priced]),
      (''https://pcpartpicker.com/products/headphones/#mt=ddr2'', fx_listing 2 [fx_unpriced]),
      (''https://pcpartpicker.com/products/headphones/#mt=ddr2&page=2'',
         fx_listing 2 [fx_unpriced, fx_priced, fx_unpriced])]"

definition fx_site :: "string \<Rightarrow> error + document" where
  "fx_site url =
     (case map_of fx_pages url of Some doc \<Rightarrow> Inr doc | None \<Rightarrow> Inr (fx_listing 1 []))"

definition fx_env :: "rat env" where
  "fx_env =
     \<lparr>serializationMap = fx_map, customSerializers = fx_custom,
      genericSerialize = fx_generic, serializeNumber = fx_number,
      inheritedCall = fx_inherited, site = fx_site\<rparr>"

text \<open>The same site with an empty registry of custom serializers.\<close>

definition fx_unregistered :: "rat env" where
  "fx_unregistered = fx_env\<lparr>customSerializers := (\<lambda>endpoint. None)\<rparr>"

text \<open>The same site when its front page does not load.\<close>

definition fx_offline :: "rat env" where
  "fx_offline =
     fx_env\<lparr>site := (\<lambda>url. if url = ''https://pcpartpicker.com''
                           then Inl (NavigationFailed url) else fx_site url)\<rparr>"

text \<open>A scraper with two variants, for a site of two variants with two pages each.\<close>

definition fx_two :: scraper where
  "fx_two = \<lparr>cpuSockets = [(''V1'', ''#v=1''), (''V2'', ''#v=2'')], pageUrl = pageUrl_Motherboard\<rparr>"

definition fx_two_site :: "string \<Rightarrow> error + document" where
  "fx_two_site url =
     (if url = ''https://pcpartpicker.com/products/case/#v=1'' then Inr (fx_listing 2 [fx_unpriced])
      else if url = ''https://pcpartpicker.com/products/case/#v=1&page=2''
        then Inr (fx_listing 2 [fx_priced])
      else if url = ''https://pcpartpicker.com/products/case/#v=2''
        then Inr (fx_listing 2 [fx_priced, fx_unpriced])
      else if url = ''https://pcpartpicker.com/products/case/#v=2&page=2''
        then Inr (fx_listing 2 [])
      else Inl (NavigationFailed url))"

definition fx_two_env :: "rat env" where
  "fx_two_env =
     \<lparr>serializationMap = [''case'' \<mapsto> fx_table], customSerializers = [''case'' \<mapsto> fx_registered],
      genericSerialize = fx_generic, serializeNumber = fx_number,
      inheritedCall = fx_inherited, site = fx_two_site\<rparr>"

section \<open>Strings and objects\<close>



lemma map_of_set_prop:
  "map_of (set_prop k v ps) k' = (if k' = k then Some v else map_of ps k')"
  by (induction ps) auto

lemmas eff_defs = and_then_def perform_def ret_def raise_def goto_def


lemma getProperty_Absent:
  "table key = None \<Longrightarrow> key \<notin> set objectPrototype \<Longrightarrow> getProperty table key = Absent"
  by (simp add: getProperty_def)

lemma getProperty_Inherited:
  "table key = None \<Longrightarrow> key \<in> set objectPrototype \<Longrightarrow> getProperty table key = Inherited"
  by (simp add: getProperty_def)

section \<open>What the extraction of one product row leaves untouched\<close>

lemma scrape_spec_keeps:
  assumes "scrape_spec env endpoint serialized spec = (es, Inr serialized')"
    and "serializationMap env endpoint = Some table"
    and "\<And>l ty. table l \<noteq> Some (k, ty)"
  shows "map_of serialized' k = map_of serialized k"
  using assms
  by (auto simp: scrape_spec_def getProperty_def eff_defs Let_def map_of_set_prop
      split: option.splits property.splits if_splits sum.splits prod.splits)

lemma scrape_spec_no_table:
  assumes "serializationMap env endpoint = None"
  shows "snd (scrape_spec env endpoint serialized spec) \<noteq> Inr serialized'"
  using assms
  by (auto simp: scrape_spec_def raise_def split: option.splits)

lemma scrape_specs_keeps:
  assumes "scrape_specs env endpoint serialized cells = (es, Inr serialized')"
    and "\<And>table l ty. serializationMap env endpoint = Some table \<Longrightarrow> table l \<noteq> Some (k, ty)"
  shows "map_of serialized' k = map_of serialized k"
  using assms
proof (induction cells arbitrary: serialized es)
  case Nil
  then show ?case by (simp add: ret_def)
next
  case (Cons spec rest)
  from Cons.prems(1) obtain es1 s1 es2 where
    one: "scrape_spec env endpoint serialized spec = (es1, Inr s1)" and
    more: "scrape_specs env endpoint s1 rest = (es2, Inr serialized')"
    by (auto split: prod.splits sum.splits)
  have "map_of s1 k = map_of serialized k"
  proof (cases "serializationMap env endpoint")
    case None
    with one scrape_spec_no_table [OF None, of serialized spec s1] show ?thesis by simp
  next
    case (Some table)
    show ?thesis by (rule scrape_spec_keeps [OF one Some]) (rule Cons.prems(2) [OF Some])
  qed
  moreover have "map_of serialized' k = map_of s1 k"
    by (rule Cons.IH [OF more]) (rule Cons.prems(2))
  ultimately show ?case by simp
qed

lemma scrape_price_result:
  assumes "scrape_price env serialized priceText = (es, Inr serialized')"
  shows "(priceText = None \<or> (\<exists>t. priceText = Some t \<and> trim t = []))
           \<and> es = [] \<and> serialized' = set_prop ''price'' Null serialized
         \<or> (\<exists>t n. priceText = Some t \<and> trim t \<noteq> [] \<and> serializeNumber env t = Inr n
              \<and> es = [SerializeNumber t] \<and> serialized' = set_prop ''price'' (Num n) serialized)"
  using assms
  by (auto simp: scrape_price_def eff_defs split: option.splits if_splits sum.splits)

lemma scrape_product_result:
  assumes "scrape_product env cfg endpoint socketUrl productEl = (es, Inr serialized)"
  shows "\<exists>title priceText es1 s1 es2.
           nameText productEl = Some title \<and> priceCell productEl = PriceCell priceText
         \<and> scrape_price env
              [(''name'', Str (socketName (cpuSockets cfg) socketUrl @ '' '' @ title))] priceText
             = (es1, Inr s1)
         \<and> scrape_specs env endpoint s1 (specs productEl) = (es2, Inr serialized)
         \<and> es = es1 @ es2"
  using assms
  by (auto simp: scrape_product_def eff_defs Let_def
      split: option.splits price_cell.splits sum.splits prod.splits)

section \<open>Loops over a list that is cut in two\<close>

lemma scrape_specs_append:
  "scrape_specs env endpoint serialized (xs @ ys) =
     (case scrape_specs env endpoint serialized xs of
        (es, Inl e) \<Rightarrow> (es, Inl e)
      | (es, Inr serialized') \<Rightarrow>
          (case scrape_specs env endpoint serialized' ys of (es', r) \<Rightarrow> (es @ es', r)))"
  by (induction xs arbitrary: serialized) (auto simp: ret_def split: prod.splits sum.splits)

lemma scrape_products_append:
  "scrape_products env cfg endpoint socketUrl acc (xs @ ys) =
     (case scrape_products env cfg endpoint socketUrl acc xs of
        (es, Inl e) \<Rightarrow> (es, Inl e)
      | (es, Inr acc') \<Rightarrow>
          (case scrape_products env cfg endpoint socketUrl acc' ys of (es', r) \<Rightarrow> (es @ es', r)))"
  by (induction xs arbitrary: acc) (auto simp: ret_def split: prod.splits sum.splits)

lemma scrape_pages_append_thrown:
  "thrown (scrape_pages env cfg endpoint socketUrl doc xs) = Some e
   \<Longrightarrow> scrape_pages env cfg endpoint socketUrl doc (xs @ ys)
       = scrape_pages env cfg endpoint socketUrl doc xs"
  by (induction xs arbitrary: doc)
     (auto simp: Let_def split: prod.splits sum.splits if_splits)

lemma scrape_pages_append_later:
  assumes "thrown (scrape_pages env cfg endpoint socketUrl doc xs) = None"
    and "\<forall>p\<in>set ys. 1 < p"
  shows "scrape_pages env cfg endpoint socketUrl doc (xs @ ys) =
          \<lparr>effects = effects (scrape_pages env cfg endpoint socketUrl doc xs)
                      @ effects (scrape_pages env cfg endpoint socketUrl doc ys),
           yielded = yielded (scrape_pages env cfg endpoint socketUrl doc xs)
                      @ yielded (scrape_pages env cfg endpoint socketUrl doc ys),
           thrown = thrown (scrape_pages env cfg endpoint socketUrl doc ys)\<rparr>"
  using assms
proof (induction xs arbitrary: doc)
  case Nil
  then show ?case by simp
next
  case (Cons x xs)
  obtain es r where step:
    "(if 1 < x then goto env (pageUrl cfg endpoint socketUrl x) else ret doc) = (es, r)"
    by (cases "if 1 < x then goto env (pageUrl cfg endpoint socketUrl x) else ret doc") blast
  show ?case
  proof (cases r)
    case (Inl e)
    with step Cons.prems(1) show ?thesis by simp
  next
    case (Inr d)
    obtain es' r' where rows:
      "scrape_products env cfg endpoint socketUrl [] (products d) = (es', r')"
      by (cases "scrape_products env cfg endpoint socketUrl [] (products d)") blast
    show ?thesis
    proof (cases r')
      case (Inl e)
      with step Inr rows Cons.prems(1) show ?thesis by simp
    next
      case b: (Inr b)
      have t: "thrown (scrape_pages env cfg endpoint socketUrl d xs) = None"
        using Cons.prems(1) step Inr rows b by (simp add: Let_def)
      have any: "scrape_pages env cfg endpoint socketUrl d ys
                 = scrape_pages env cfg endpoint socketUrl doc ys"
        using Cons.prems(2) by (cases ys) auto
      show ?thesis
        using step Inr rows b Cons.IH [OF t Cons.prems(2)] any by (simp add: Let_def)
    qed
  qed
qed

lemma scrape_sockets_append:
  "scrape_sockets env cfg endpoint (xs @ ys) =
     (case thrown (scrape_sockets env cfg endpoint xs) of
        Some e \<Rightarrow> scrape_sockets env cfg endpoint xs
      | None \<Rightarrow>
          \<lparr>effects = effects (scrape_sockets env cfg endpoint xs)
                      @ effects (scrape_sockets env cfg endpoint ys),
           yielded = yielded (scrape_sockets env cfg endpoint xs)
                      @ yielded (scrape_sockets env cfg endpoint ys),
           thrown = thrown (scrape_sockets env cfg endpoint ys)\<rparr>)"
  by (induction xs)
     (auto simp: Let_def split: prod.splits sum.splits option.splits)

section \<open>The URL of a later page\<close>

lemma pageUrl_neq:
  "pageUrl_Motherboard endpoint socketUrl currentPage
   \<noteq> pageUrl_part_000 endpoint socketUrl currentPage"
proof
  assume "pageUrl_Motherboard endpoint socketUrl currentPage
          = pageUrl_part_000 endpoint socketUrl currentPage"
  then have tails: "socketUrl @ ''&page='' @ string_of_nat currentPage
                    = ''#page='' @ string_of_nat currentPage"
    unfolding pageUrl_Motherboard_def pageUrl_part_000_def by simp
  then have "length (socketUrl @ ''&page='' @ string_of_nat currentPage)
             = length (''#page='' @ string_of_nat currentPage)"
    by (rule arg_cong)
  then have "socketUrl = []" by simp
  with tails show False by simp
qed

lemma scrape_pages_first_effect:
  assumes "1 < currentPage"
  shows "take 1 (effects (scrape_pages env cfg endpoint socketUrl doc (currentPage # rest)))
         = [Goto (pageUrl cfg endpoint socketUrl currentPage)]"
  using assms
  by (simp add: goto_def perform_def Let_def split: sum.splits prod.splits)

text \<open>
  C2. From the second page on, both files open a URL made of the base URL, the endpoint
  and the page number, but not the same one: \<open>Motherboard/src/scraper.ts\<close> appends
  \<open>&page=N\<close> to the listing URL of the variant and so keeps the variant's filter
  fragment, while \<open>part_000\<close> opens \<open>#page=N\<close> under the endpoint and drops
  it. For every page after the first, and every endpoint and variant, the first thing
  that an iteration of the page loop does is to navigate, and the two files navigate to
  different URLs.
\<close>

theorem pagination_urls_differ:
  assumes "1 < currentPage"
  shows "take 1 (effects (scrape_pages env Motherboard endpoint socketUrl doc (currentPage # rest)))
           = [Goto (fullUrl endpoint socketUrl @ ''&page='' @ string_of_nat currentPage)]
       \<and> take 1 (effects (scrape_pages env part_000 endpoint socketUrl doc (currentPage # rest)))
           = [Goto (BASE_URL @ ''/'' @ endpoint @ ''/#page='' @ string_of_nat currentPage)]
       \<and> pageUrl Motherboard endpoint socketUrl currentPage
           \<noteq> pageUrl part_000 endpoint socketUrl currentPage"
proof -
  have m: "pageUrl Motherboard endpoint socketUrl currentPage
        = fullUrl endpoint socketUrl @ ''&page='' @ string_of_nat currentPage"
    by (simp add: Motherboard_def pageUrl_Motherboard_def fullUrl_def)
  have p: "pageUrl part_000 endpoint socketUrl currentPage
        = BASE_URL @ ''/'' @ endpoint @ ''/#page='' @ string_of_nat currentPage"
    by (simp add: part_000_def pageUrl_part_000_def)
  have "pageUrl Motherboard endpoint socketUrl currentPage
        \<noteq> pageUrl part_000 endpoint socketUrl currentPage"
    by (simp add: Motherboard_def part_000_def pageUrl_neq)
  moreover note scrape_pages_first_effect [OF assms, of env Motherboard endpoint socketUrl doc rest, unfolded m]
   scrape_pages_first_effect [OF assms, of env part_000 endpoint socketUrl doc rest, unfolded p]
  ultimately show ?thesis by blast
qed

theorem pagination_urls_differ_witness:
  "(1::nat) < 2
   \<and> take 1 (effects (scrape_pages fx_env Motherboard ''cpu'' ''#k=2'' (fx_listing 2 []) [2]))
       = [Goto ''https://pcpartpicker.com/products/cpu/#k=2&page=2'']
   \<and> take 1 (effects (scrape_pages fx_env part_000 ''cpu'' ''#k=2'' (fx_listing 2 []) [2]))
       = [Goto ''https://pcpartpicker.com/products/cpu/#page=2'']
   \<and> pageUrl Motherboard ''cpu'' ''#k=2'' 2 \<noteq> pageUrl part_000 ''cpu'' ''#k=2'' 2"
proof -
  have two: "(1::nat) < 2" by simp
  have digits: "string_of_nat 2 = ''2''" by (simp add: digit_char_def)
  note pagination_urls_differ [OF two, of fx_env "''cpu''" "''#k=2''" "fx_listing 2 []" "[]"]
  then show ?thesis
    unfolding digits fullUrl_def BASE_URL_def append.simps using two by blast
qed

section \<open>The fields of a record\<close>










section \<open>The name and the price of a record\<close>

lemma find_the_key: "key \<in> set keys \<Longrightarrow> find (\<lambda>k. k = key) keys = Some key"
  by (induction keys) auto

lemma socketName_of_entry:
  assumes keys: "distinct (map fst sockets)" and urls: "distinct (map snd sockets)"
    and entry: "(key, socketUrl) \<in> set sockets"
  shows "socketName sockets socketUrl = key"
proof -
  have hit: "map_of sockets k = Some socketUrl \<longleftrightarrow> k = key" for k
  proof
    assume "map_of sockets k = Some socketUrl"
    then have "(k, socketUrl) \<in> set sockets" by (rule map_of_SomeD)
    with entry urls show "k = key"
      by (metis distinct_map inj_onD prod.inject snd_conv)
  next
    assume "k = key"
    with keys entry show "map_of sockets k = Some socketUrl" by simp
  qed
  have "key \<in> set (map fst sockets)" using entry by force
  then have "find (\<lambda>k. k = key) (map fst sockets) = Some key"
    by (rule find_the_key)
  then show ?thesis by (simp add: socketName_def hit)
qed

lemma socketName_Motherboard:
  "(key, socketUrl) \<in> set (cpuSockets Motherboard)
   \<Longrightarrow> socketName (cpuSockets Motherboard) socketUrl = key"
  by (rule socketName_of_entry) (simp_all add: Motherboard_def cpuSockets_Motherboard_def)

lemma socketName_part_000:
  "(key, socketUrl) \<in> set (cpuSockets part_000)
   \<Longrightarrow> socketName (cpuSockets part_000) socketUrl = key"
  by (rule socketName_of_entry) (simp_all add: part_000_def cpuSockets_part_000_def)



text \<open>
  C9. Provided that the serialization map of the endpoint names no field \<open>name\<close>
  or \<open>price\<close>, every record that the extraction of a product row returns, in either
  file and for every entry of its variant table, has a \<open>name\<close> that is the key of the
  entry, a space and the text of the row's name paragraph, and a \<open>price\<close> that is
  \<open>null\<close> or a number.
\<close>

theorem record_has_name_and_price:
  assumes ok: "scrape_product env cfg endpoint socketUrl productEl = (es, Inr serialized)"
    and which: "cfg = Motherboard \<or> cfg = part_000"
    and entry: "(key, socketUrl) \<in> set (cpuSockets cfg)"
    and other: "\<And>table label ty. serializationMap env endpoint = Some table
                  \<Longrightarrow> table label \<noteq> Some (''name'', ty) \<and> table label \<noteq> Some (''price'', ty)"
  shows "\<exists>title. nameText productEl = Some title
           \<and> map_of serialized ''name'' = Some (Str (key @ '' '' @ title))
           \<and> (map_of serialized ''price'' = Some Null
                \<or> (\<exists>n. map_of serialized ''price'' = Some (Num n)))"
proof -
  from scrape_product_result [OF ok] obtain title priceText es1 s1 es2 where
    title: "nameText productEl = Some title" and
    price: "scrape_price env
              [(''name'', Str (socketName (cpuSockets cfg) socketUrl @ '' '' @ title))] priceText
            = (es1, Inr s1)" and
    cells: "scrape_specs env endpoint s1 (specs productEl) = (es2, Inr serialized)"
    by blast
  have variant: "socketName (cpuSockets cfg) socketUrl = key"
    using which entry socketName_Motherboard socketName_part_000 by blast
  have name: "map_of serialized ''name'' = map_of s1 ''name''"
    by (rule scrape_specs_keeps [OF cells]) (simp add: other)
  have amount: "map_of serialized ''price'' = map_of s1 ''price''"
    by (rule scrape_specs_keeps [OF cells]) (simp add: other)
  from scrape_price_result [OF price] show ?thesis
    by (auto simp: title name amount variant map_of_set_prop)
qed

theorem record_has_name_and_price_witness:
  "scrape_product fx_env part_000 ''memory'' ''#k=33'' fx_unpriced
     = ([], Inr [(''name'', Str ''AM4 Fury''), (''price'', Null)])
   \<and> (''AM4'', ''#k=33'') \<in> set (cpuSockets part_000)
   \<and> serializationMap fx_env ''memory'' = Some fx_table
   \<and> (\<nexists>label ty. fx_table label = Some (''name'', ty) \<or> fx_table label = Some (''price'', ty))
   \<and> nameText fx_unpriced = Some ''Fury''
   \<and> map_of [(''name'', Str ''AM4 Fury''), (''price'', Null :: rat jsvalue)] ''name''
       = Some (Str (''AM4'' @ '' '' @ ''Fury''))"
proof -
  have h1: "scrape_product fx_env part_000 ''memory'' ''#k=33'' fx_unpriced
     = ([], Inr [(''name'', Str ''AM4 Fury''), (''price'', Null)])"
    by code_simp
  have h2: "part_000 = Motherboard \<or> part_000 = part_000" by simp
  have h3: "(''AM4'', ''#k=33'') \<in> set (cpuSockets part_000)"
    by (simp add: part_000_def cpuSockets_part_000_def)
  have table: "serializationMap fx_env ''memory'' = Some fx_table"
    by (simp add: fx_env_def fx_map_def)
  have none: "\<nexists>label ty. fx_table label = Some (''name'', ty)
                \<or> fx_table label = Some (''price'', ty)"
    by (auto simp: fx_table_def split: if_splits)
  have h4: "table label \<noteq> Some (''name'', ty) \<and> table label \<noteq> Some (''price'', ty)"
    if "serializationMap fx_env ''memory'' = Some table" for table label ty
    using that table none by auto
  have title: "nameText fx_unpriced = Some ''Fury''" by (simp add: fx_unpriced_def)
  have "\<exists>title. nameText fx_unpriced = Some title
           \<and> map_of [(''name'', Str ''AM4 Fury''), (''price'', Null :: rat jsvalue)] ''name''
               = Some (Str (''AM4'' @ '' '' @ title))
           \<and> (map_of [(''name'', Str ''AM4 Fury''), (''price'', Null :: rat jsvalue)] ''price''
                 = Some Null
                \<or> (\<exists>n. map_of [(''name'', Str ''AM4 Fury''), (''price'', Null :: rat jsvalue)]
                          ''price'' = Some (Num n)))"
    by (rule record_has_name_and_price [OF h1 h2 h3]) (rule h4)
  with title
  have "map_of [(''name'', Str ''AM4 Fury''), (''price'', Null :: rat jsvalue)] ''name''
       = Some (Str (''AM4'' @ '' '' @ ''Fury''))"
    by auto
  with h1 h3 table none title show ?thesis by blast
qed

section \<open>The outputs of a run\<close>

lemma foldl_append_concat: "foldl (\<lambda>xs ys. xs @ ys) acc bs = acc @ concat bs"
  by (induction bs arbitrary: acc) auto

lemma drain_concat: "drain batches = concat batches"
  by (simp add: drain_def foldl_append_concat)

lemma task_written:
  "written (task env cfg out endpoint)
   = written out @ [(jsonPath endpoint, concat (yielded (scrape env cfg endpoint)))]"
  by (simp add: task_def Let_def drain_concat)

lemma task_console:
  "console (task env cfg out endpoint)
   = console out @ (case thrown (scrape env cfg endpoint) of
                      None \<Rightarrow> []
                    | Some e \<Rightarrow> [(endpoint, e)])"
  by (simp add: task_def Let_def split: option.splits)

lemma foldl_task_written:
  "written (foldl (task env cfg) out endpoints)
   = written out
     @ map (\<lambda>endpoint. (jsonPath endpoint, concat (yielded (scrape env cfg endpoint)))) endpoints"
  by (induction endpoints arbitrary: out) (simp_all add: task_written)

lemma foldl_task_console:
  "console (foldl (task env cfg) out endpoints)
   = console out
     @ concat (map (\<lambda>endpoint. case thrown (scrape env cfg endpoint) of
                                   None \<Rightarrow> []
                                 | Some e \<Rightarrow> [(endpoint, e)]) endpoints)"
  by (induction endpoints arbitrary: out) (simp_all add: task_console)

lemma jsonPath_inject: "jsonPath a = jsonPath b \<longleftrightarrow> a = b"
  by (simp add: jsonPath_def)

lemma count_written:
  "length (filter (\<lambda>file. fst file = jsonPath endpoint)
             (map (\<lambda>endpoint. (jsonPath endpoint, f endpoint)) endpoints))
   = count_list endpoints endpoint"
  by (induction endpoints) (auto simp: jsonPath_inject)

lemma unseeded_run_writes_nothing:
  "seed env = Inl e \<Longrightarrow> scrapeInParallel env cfg endpoints = \<lparr>console = [], written = []\<rparr>"
  by (simp add: scrapeInParallel_def)

lemma seeded_run_written:
  "seed env = Inr ()
   \<Longrightarrow> written (scrapeInParallel env cfg endpoints)
       = map (\<lambda>other. (jsonPath other, concat (yielded (scrape env cfg other)))) endpoints"
  by (simp add: scrapeInParallel_def foldl_task_written)

lemma seeded_run_console:
  "seed env = Inr ()
   \<Longrightarrow> console (scrapeInParallel env cfg endpoints)
       = concat (map (\<lambda>other. case thrown (scrape env cfg other) of
                                  None \<Rightarrow> []
                                | Some e \<Rightarrow> [(other, e)]) endpoints)"
  by (simp add: scrapeInParallel_def foldl_task_console)

text \<open>
  C8, as the claim states it, fails: the endpoints are queued by the first job of the
  queue, after it has opened the front page of the site and found its \<open>nav\<close>. When
  the front page does not load, that job throws before its loop, no endpoint is queued,
  and the run ends without a file and without a warning for any requested endpoint. On
  the same site with its front page up, the same request writes one file for each
  endpoint.
\<close>

theorem unseeded_run_counterexample:
  "site fx_offline ''https://pcpartpicker.com''
     = Inl (NavigationFailed ''https://pcpartpicker.com'')
   \<and> seed fx_offline = Inl (NavigationFailed ''https://pcpartpicker.com'')
   \<and> scrapeInParallel fx_offline Motherboard [''memory'', ''keyboard'']
       = \<lparr>console = [], written = []\<rparr>
   \<and> map fst (written (scrapeInParallel fx_env Motherboard [''memory'', ''keyboard'']))
       = [''data-staging/json/memory.json'', ''data-staging/json/keyboard.json'']"
proof -
  have front: "site fx_offline ''https://pcpartpicker.com''
     = Inl (NavigationFailed ''https://pcpartpicker.com'')"
    by (simp add: fx_offline_def)
  then have unseeded: "seed fx_offline = Inl (NavigationFailed ''https://pcpartpicker.com'')"
    by (simp add: seed_def)
  then have unwritten: "scrapeInParallel fx_offline Motherboard [''memory'', ''keyboard'']
       = \<lparr>console = [], written = []\<rparr>"
    by (rule unseeded_run_writes_nothing)
  have files: "map fst (written (scrapeInParallel fx_env Motherboard [''memory'', ''keyboard'']))
       = [''data-staging/json/memory.json'', ''data-staging/json/keyboard.json'']"
    by code_simp
  show ?thesis by (intro conjI front unseeded unwritten files)
qed

text \<open>
  C8, amended. Once the first job of the queue has opened the site and queued the
  endpoints, a run ends with one call of \<open>writeFile\<close> for every requested endpoint
  (as many as the endpoint was requested), in the file of that endpoint, whether its
  traversal ended normally or threw: the file holds the batches that the traversal
  yielded, all of them or those before the error. The console has one warning for every
  traversal that threw, with the endpoint and the error. The functions of the model are
  total, so the run ends. (The 20 minute limit of a task is not modelled.)
\<close>

theorem one_output_per_category:
  assumes "seed env = Inr ()"
  shows "written (scrapeInParallel env cfg endpoints)
           = map (\<lambda>endpoint. (jsonPath endpoint, concat (yielded (scrape env cfg endpoint))))
               endpoints
       \<and> length (filter (\<lambda>file. fst file = jsonPath endpoint)
                   (written (scrapeInParallel env cfg endpoints)))
           = count_list endpoints endpoint
       \<and> console (scrapeInParallel env cfg endpoints)
           = concat (map (\<lambda>endpoint. case thrown (scrape env cfg endpoint) of
                                         None \<Rightarrow> []
                                       | Some e \<Rightarrow> [(endpoint, e)]) endpoints)"
proof -
  have files: "written (scrapeInParallel env cfg endpoints)
           = map (\<lambda>endpoint. (jsonPath endpoint, concat (yielded (scrape env cfg endpoint))))
               endpoints"
    using assms by (simp add: scrapeInParallel_def foldl_task_written)
  have warnings: "console (scrapeInParallel env cfg endpoints)
           = concat (map (\<lambda>endpoint. case thrown (scrape env cfg endpoint) of
                                         None \<Rightarrow> []
                                       | Some e \<Rightarrow> [(endpoint, e)]) endpoints)"
    using assms by (simp add: scrapeInParallel_def foldl_task_console)
  show ?thesis
    unfolding files warnings by (intro conjI refl count_written)
qed

theorem one_output_per_category_witness:
  "seed fx_env = Inr ()
   \<and> written (scrapeInParallel fx_env Motherboard [''memory'', ''keyboard''])
       = [(''data-staging/json/memory.json'',
            [[(''name'', Str ''DDR2 Fury''), (''price'', Null)],
             [(''name'', Str ''DDR2 Vengeance''), (''price'', Num (12999 / 100)),
              (''speed'', Arr [Str ''DDR4-3200'']), (''color'', Null)]]),
          (''data-staging/json/keyboard.json'', [])]
   \<and> length (filter (\<lambda>file. fst file = jsonPath ''keyboard'')
               (written (scrapeInParallel fx_env Motherboard [''memory'', ''keyboard''])))
       = 1
   \<and> console (scrapeInParallel fx_env Motherboard [''memory'', ''keyboard''])
       = [(''keyboard'', SerializerFailed ''Call'')]"
proof -
  have seeded: "seed fx_env = Inr ()" by code_simp
  have files: "map (\<lambda>endpoint. (jsonPath endpoint,
                                  concat (yielded (scrape fx_env Motherboard endpoint))))
                 [''memory'', ''keyboard'']
       = [(''data-staging/json/memory.json'',
            [[(''name'', Str ''DDR2 Fury''), (''price'', Null)],
             [(''name'', Str ''DDR2 Vengeance''), (''price'', Num (12999 / 100)),
              (''speed'', Arr [Str ''DDR4-3200'']), (''color'', Null)]]),
          (''data-staging/json/keyboard.json'', [])]"
    by code_simp
  have once: "count_list [''memory'', ''keyboard''] ''keyboard'' = 1" by simp
  have warnings: "concat (map (\<lambda>endpoint. case thrown (scrape fx_env Motherboard endpoint) of
                                         None \<Rightarrow> []
                                       | Some e \<Rightarrow> [(endpoint, e)])
                              [''memory'', ''keyboard''])
       = [(''keyboard'', SerializerFailed ''Call'')]"
    by code_simp
  from one_output_per_category [OF seeded, of Motherboard "[''memory'', ''keyboard'']" "''keyboard''"]
  show ?thesis
    unfolding files once warnings using seeded by blast
qed

section \<open>The batches of a traversal, page by page\<close>

lemma later_pages: "\<forall>p\<in>set [Suc 1..<k]. 1 < p"
  by (simp del: upt_Suc)

lemma pageNumbers_cases:
  "pageNumbers n = [] \<or> (\<exists>ps. pageNumbers n = 1 # ps \<and> (\<forall>p\<in>set ps. 1 < p))"
proof (cases n)
  case None
  then show ?thesis by (simp add: pageNumbers_def)
next
  case (Some k)
  show ?thesis
  proof (cases "nat k")
    case 0
    with Some show ?thesis by (simp add: pageNumbers_def)
  next
    case (Suc m)
    have "[1..<Suc (Suc m)] = 1 # [Suc 1..<Suc (Suc m)]"
      by (rule upt_conv_Cons) simp
    then have "pageNumbers n = 1 # [Suc 1..<Suc (Suc m)]"
      by (simp only: pageNumbers_def Some option.case Suc)
    with later_pages show ?thesis by blast
  qed
qed

lemma take_prefix_longer:
  assumes "map f ys = take (length ys) xs"
  shows "map f ys = take (length ys) (xs @ zs)"
proof -
  have "length (map f ys) = length (take (length ys) xs)"
    using assms by (rule arg_cong)
  then have "length ys \<le> length xs" by simp
  then have "take (length ys) (xs @ zs) = take (length ys) xs" by simp
  then show ?thesis by (simp only: assms)
qed

lemma take_prefix_append:
  assumes "map f ys = xs" and "map f ys' = take (length ys') zs"
  shows "map f (ys @ ys') = take (length (ys @ ys')) (xs @ zs)"
proof -
  have "length xs = length (map f ys)" by (simp only: assms(1))
  then have "length xs = length ys" by simp
  then have "take (length (ys @ ys')) (xs @ zs) = xs @ take (length ys') zs" by simp
  also have "\<dots> = map f ys @ map f ys'" by (simp only: assms)
  finally show ?thesis by simp
qed

lemma scrape_pages_later_batches:
  assumes "\<forall>p\<in>set ps. 1 < p"
  shows "map Inr (yielded (scrape_pages env cfg endpoint socketUrl doc ps))
           = take (length (yielded (scrape_pages env cfg endpoint socketUrl doc ps)))
               (map (pageBatch env cfg endpoint socketUrl) ps)
       \<and> (thrown (scrape_pages env cfg endpoint socketUrl doc ps) = None
            \<longrightarrow> length (yielded (scrape_pages env cfg endpoint socketUrl doc ps)) = length ps)"
  using assms
proof (induction ps arbitrary: doc)
  case Nil
  then show ?case by simp
next
  case (Cons p ps)
  then have later: "1 < p" and rest: "\<forall>p\<in>set ps. 1 < p" by simp_all
  show ?case
  proof (cases "site env (pageUrl cfg endpoint socketUrl p)")
    case (Inl e)
    with later show ?thesis by (simp add: goto_def perform_def)
  next
    case (Inr d)
    obtain es r where rows: "scrape_products env cfg endpoint socketUrl [] (products d) = (es, r)"
      by (cases "scrape_products env cfg endpoint socketUrl [] (products d)") blast
    show ?thesis
    proof (cases r)
      case (Inl e)
      with later Inr rows show ?thesis by (simp add: goto_def perform_def)
    next
      case b: (Inr b)
      have batch: "pageBatch env cfg endpoint socketUrl p = Inr b"
        using later Inr rows b by (simp add: pageBatch_def pageDocument_def)
      from Cons.IH [OF rest, of d] later Inr rows b batch show ?thesis
        by (simp add: goto_def perform_def Let_def)
    qed
  qed
qed

lemma scrape_pages_batches:
  assumes listing: "site env (fullUrl endpoint socketUrl) = Inr doc"
  shows "map Inr (yielded (scrape_pages env cfg endpoint socketUrl doc (pageNumbers n)))
           = take (length (yielded (scrape_pages env cfg endpoint socketUrl doc (pageNumbers n))))
               (map (pageBatch env cfg endpoint socketUrl) (pageNumbers n))
       \<and> (thrown (scrape_pages env cfg endpoint socketUrl doc (pageNumbers n)) = None
            \<longrightarrow> length (yielded (scrape_pages env cfg endpoint socketUrl doc (pageNumbers n)))
                 = length (pageNumbers n))"
proof -
  from pageNumbers_cases [of n] show ?thesis
  proof
    assume "pageNumbers n = []"
    then show ?thesis by simp
  next
    assume "\<exists>ps. pageNumbers n = 1 # ps \<and> (\<forall>p\<in>set ps. 1 < p)"
    then obtain ps where pages: "pageNumbers n = 1 # ps" and later: "\<forall>p\<in>set ps. 1 < p"
      by blast
    obtain es r where rows:
      "scrape_products env cfg endpoint socketUrl [] (products doc) = (es, r)"
      by (cases "scrape_products env cfg endpoint socketUrl [] (products doc)") blast
    show ?thesis
    proof (cases r)
      case (Inl e)
      with pages rows show ?thesis by (simp add: ret_def)
    next
      case b: (Inr b)
      have batch: "pageBatch env cfg endpoint socketUrl 1 = Inr b"
        using listing rows b by (simp add: pageBatch_def pageDocument_def)
      from scrape_pages_later_batches [OF later, of env cfg endpoint socketUrl doc]
        pages rows b batch show ?thesis
        by (simp add: ret_def Let_def)
    qed
  qed
qed

lemma scrape_sockets_batches:
  "map Inr (yielded (scrape_sockets env cfg endpoint sockets))
     = take (length (yielded (scrape_sockets env cfg endpoint sockets)))
         (map (\<lambda>(socketUrl, currentPage). pageBatch env cfg endpoint socketUrl currentPage)
            (declaredVisits env endpoint sockets))
   \<and> (thrown (scrape_sockets env cfg endpoint sockets) = None
        \<longrightarrow> length (yielded (scrape_sockets env cfg endpoint sockets))
             = length (declaredVisits env endpoint sockets))"
proof (induction sockets)
  case Nil
  show ?case by (simp add: declaredVisits_def)
next
  case (Cons entry sockets)
  obtain key socketUrl where entry: "entry = (key, socketUrl)" by (cases entry)
  let ?batch = "\<lambda>(socketUrl, currentPage). pageBatch env cfg endpoint socketUrl currentPage"
  have visits: "declaredVisits env endpoint (entry # sockets)
      = map (Pair socketUrl) (variantPages env endpoint socketUrl)
        @ declaredVisits env endpoint sockets"
    by (simp add: declaredVisits_def entry)
  have own: "map ?batch (map (Pair socketUrl) ps) = map (pageBatch env cfg endpoint socketUrl) ps"
    for ps by simp
  show ?case
  proof (cases "site env (fullUrl endpoint socketUrl)")
    case (Inl e)
    then show ?thesis by (simp add: entry goto_def perform_def)
  next
    case (Inr doc)
    show ?thesis
    proof (cases "readNumPages doc")
      case (Inl e)
      with Inr show ?thesis by (simp add: entry goto_def perform_def)
    next
      case n: (Inr n)
      let ?r = "scrape_pages env cfg endpoint socketUrl doc (pageNumbers n)"
      have pages: "variantPages env endpoint socketUrl = pageNumbers n"
        using Inr n by (simp add: variantPages_def)
      note mine = scrape_pages_batches [OF Inr, of cfg n]
      show ?thesis
      proof (cases "thrown ?r")
        case (Some e)
        have same: "yielded (scrape_sockets env cfg endpoint (entry # sockets)) = yielded ?r"
          and threw: "thrown (scrape_sockets env cfg endpoint (entry # sockets)) = Some e"
          using Inr n Some by (simp_all add: entry goto_def perform_def Let_def)
        have "map Inr (yielded ?r)
              = take (length (yielded ?r))
                  (map (pageBatch env cfg endpoint socketUrl) (pageNumbers n)
                   @ map ?batch (declaredVisits env endpoint sockets))"
          using mine by (intro take_prefix_longer) blast
        then show ?thesis
          unfolding same threw visits pages map_append own by simp
      next
        case None
        have whole: "length (yielded ?r) = length (pageNumbers n)"
          and all: "map Inr (yielded ?r) = map (pageBatch env cfg endpoint socketUrl) (pageNumbers n)"
          using mine None by simp_all
        have both: "yielded (scrape_sockets env cfg endpoint (entry # sockets))
              = yielded ?r @ yielded (scrape_sockets env cfg endpoint sockets)"
          and threw: "thrown (scrape_sockets env cfg endpoint (entry # sockets))
              = thrown (scrape_sockets env cfg endpoint sockets)"
          using Inr n None by (simp_all add: entry goto_def perform_def Let_def)
        have "map Inr (yielded ?r @ yielded (scrape_sockets env cfg endpoint sockets))
              = take (length (yielded ?r @ yielded (scrape_sockets env cfg endpoint sockets)))
                  (map (pageBatch env cfg endpoint socketUrl) (pageNumbers n)
                   @ map ?batch (declaredVisits env endpoint sockets))"
          using all Cons.IH by (intro take_prefix_append) blast+
        moreover have "thrown (scrape_sockets env cfg endpoint sockets) = None
            \<longrightarrow> length (yielded ?r @ yielded (scrape_sockets env cfg endpoint sockets))
                 = length (map (Pair socketUrl) (pageNumbers n)
                           @ declaredVisits env endpoint sockets)"
          using whole Cons.IH by simp
        ultimately show ?thesis
          unfolding both threw visits pages map_append own by blast
      qed
    qed
  qed
qed

section \<open>The navigations of a traversal\<close>

lemma navigated_append: "navigated (es @ es') = navigated es @ navigated es'"
  by (induction es rule: navigated.induct) simp_all

lemma scrape_spec_navigated: "navigated (fst (scrape_spec env endpoint serialized spec)) = []"
  by (auto simp: scrape_spec_def getProperty_def eff_defs Let_def
      split: option.splits property.splits if_splits sum.splits prod.splits)

lemma scrape_specs_navigated:
  "navigated (fst (scrape_specs env endpoint serialized cells)) = []"
proof (induction cells arbitrary: serialized)
  case Nil
  show ?case by (simp add: ret_def)
next
  case (Cons spec rest)
  obtain es r where one: "scrape_spec env endpoint serialized spec = (es, r)"
    by (cases "scrape_spec env endpoint serialized spec") blast
  have quiet: "navigated es = []"
    using scrape_spec_navigated [of env endpoint serialized spec] one by simp
  show ?case
  proof (cases r)
    case (Inl e)
    with one quiet show ?thesis by simp
  next
    case (Inr s1)
    obtain es' r' where more: "scrape_specs env endpoint s1 rest = (es', r')"
      by (cases "scrape_specs env endpoint s1 rest") blast
    with Cons.IH [of s1] have "navigated es' = []" by simp
    with one Inr more quiet show ?thesis by (simp add: navigated_append)
  qed
qed

lemma scrape_price_navigated: "navigated (fst (scrape_price env serialized priceText)) = []"
  by (auto simp: scrape_price_def eff_defs split: option.splits if_splits sum.splits)

lemma scrape_product_navigated:
  fixes env :: "'n env"
  shows "navigated (fst (scrape_product env cfg endpoint socketUrl productEl)) = []"
proof (cases "nameText productEl")
  case None
  then show ?thesis by (simp add: scrape_product_def raise_def)
next
  case (Some title)
  show ?thesis
  proof (cases "priceCell productEl")
    case NoPriceCell
    with Some show ?thesis by (simp add: scrape_product_def raise_def)
  next
    case (PriceCell priceText)
    define named :: "'n part" where
      "named = [(''name'', Str (socketName (cpuSockets cfg) socketUrl @ '' '' @ title))]"
    obtain es r where price: "scrape_price env named priceText = (es, r)"
      by (cases "scrape_price env named priceText") blast
    have quiet: "navigated es = []"
      using scrape_price_navigated [of env named priceText] price by simp
    show ?thesis
    proof (cases r)
      case (Inl e)
      with Some PriceCell price quiet show ?thesis
        by (simp add: scrape_product_def and_then_def named_def)
    next
      case (Inr s1)
      obtain es' r' where cells: "scrape_specs env endpoint s1 (specs productEl) = (es', r')"
        by (cases "scrape_specs env endpoint s1 (specs productEl)") blast
      with scrape_specs_navigated [of env endpoint s1 "specs productEl"]
      have "navigated es' = []" by simp
      with Some PriceCell price Inr cells quiet show ?thesis
        by (simp add: scrape_product_def and_then_def named_def navigated_append)
    qed
  qed
qed

lemma scrape_products_navigated:
  "navigated (fst (scrape_products env cfg endpoint socketUrl acc rows)) = []"
proof (induction rows arbitrary: acc)
  case Nil
  show ?case by (simp add: ret_def)
next
  case (Cons row rest)
  obtain es r where one: "scrape_product env cfg endpoint socketUrl row = (es, r)"
    by (cases "scrape_product env cfg endpoint socketUrl row") blast
  have quiet: "navigated es = []"
    using scrape_product_navigated [of env cfg endpoint socketUrl row] one by simp
  show ?case
  proof (cases r)
    case (Inl e)
    with one quiet show ?thesis by simp
  next
    case (Inr s)
    obtain es' r' where more:
      "scrape_products env cfg endpoint socketUrl (acc @ [s]) rest = (es', r')"
      by (cases "scrape_products env cfg endpoint socketUrl (acc @ [s]) rest") blast
    with Cons.IH [of "acc @ [s]"] have "navigated es' = []" by simp
    with one Inr more quiet show ?thesis by (simp add: navigated_append)
  qed
qed

lemma scrape_pages_later_navigated:
  assumes "\<forall>p\<in>set ps. 1 < p"
  shows "navigated (effects (scrape_pages env cfg endpoint socketUrl doc ps))
           = take (length (navigated (effects (scrape_pages env cfg endpoint socketUrl doc ps))))
               (map (pageUrl cfg endpoint socketUrl) ps)
       \<and> (thrown (scrape_pages env cfg endpoint socketUrl doc ps) = None
            \<longrightarrow> navigated (effects (scrape_pages env cfg endpoint socketUrl doc ps))
                 = map (pageUrl cfg endpoint socketUrl) ps)"
  using assms
proof (induction ps arbitrary: doc)
  case Nil
  then show ?case by simp
next
  case (Cons p ps)
  then have later: "1 < p" and rest: "\<forall>p\<in>set ps. 1 < p" by simp_all
  show ?case
  proof (cases "site env (pageUrl cfg endpoint socketUrl p)")
    case (Inl e)
    with later show ?thesis by (simp add: goto_def perform_def)
  next
    case (Inr d)
    obtain es r where rows: "scrape_products env cfg endpoint socketUrl [] (products d) = (es, r)"
      by (cases "scrape_products env cfg endpoint socketUrl [] (products d)") blast
    have quiet: "navigated es = []"
      using scrape_products_navigated [of env cfg endpoint socketUrl "[]" "products d"] rows
      by simp
    show ?thesis
    proof (cases r)
      case (Inl e)
      with later Inr rows quiet show ?thesis by (simp add: goto_def perform_def)
    next
      case b: (Inr b)
      from Cons.IH [OF rest, of d] later Inr rows b quiet show ?thesis
        by (simp add: goto_def perform_def Let_def navigated_append)
    qed
  qed
qed

lemma scrape_pages_navigated:
  "navigated (effects (scrape_pages env cfg endpoint socketUrl doc (pageNumbers n)))
     = take (length (navigated
                       (effects (scrape_pages env cfg endpoint socketUrl doc (pageNumbers n)))))
         (map (pageUrl cfg endpoint socketUrl) (filter (\<lambda>p. 1 < p) (pageNumbers n)))
   \<and> (thrown (scrape_pages env cfg endpoint socketUrl doc (pageNumbers n)) = None
        \<longrightarrow> navigated (effects (scrape_pages env cfg endpoint socketUrl doc (pageNumbers n)))
             = map (pageUrl cfg endpoint socketUrl) (filter (\<lambda>p. 1 < p) (pageNumbers n)))"
proof -
  from pageNumbers_cases [of n] show ?thesis
  proof
    assume "pageNumbers n = []"
    then show ?thesis by simp
  next
    assume "\<exists>ps. pageNumbers n = 1 # ps \<and> (\<forall>p\<in>set ps. 1 < p)"
    then obtain ps where pages: "pageNumbers n = 1 # ps" and later: "\<forall>p\<in>set ps. 1 < p"
      by blast
    have kept: "filter (\<lambda>p. 1 < p) (pageNumbers n) = ps"
      using pages later by simp
    obtain es r where rows:
      "scrape_products env cfg endpoint socketUrl [] (products doc) = (es, r)"
      by (cases "scrape_products env cfg endpoint socketUrl [] (products doc)") blast
    have quiet: "navigated es = []"
      using scrape_products_navigated [of env cfg endpoint socketUrl "[]" "products doc"] rows
      by simp
    show ?thesis
    proof (cases r)
      case (Inl e)
      with pages rows quiet show ?thesis by (simp add: ret_def)
    next
      case b: (Inr b)
      from scrape_pages_later_navigated [OF later, of env cfg endpoint socketUrl doc]
        rows b quiet show ?thesis
        unfolding kept unfolding pages by (simp add: ret_def Let_def navigated_append)
    qed
  qed
qed

lemma take_self_longer:
  assumes "xs = take (length xs) ys"
  shows "x # xs = take (length (x # xs)) (x # ys @ zs)"
proof -
  have "length xs = length (take (length xs) ys)" using assms by (rule arg_cong)
  then have "length xs \<le> length ys" by simp
  then have "take (length xs) (ys @ zs) = take (length xs) ys" by simp
  with assms show ?thesis by simp
qed

lemma scrape_sockets_navigated:
  "navigated (effects (scrape_sockets env cfg endpoint sockets))
     = take (length (navigated (effects (scrape_sockets env cfg endpoint sockets))))
         (declaredNavigations env cfg endpoint sockets)
   \<and> (thrown (scrape_sockets env cfg endpoint sockets) = None
        \<longrightarrow> navigated (effects (scrape_sockets env cfg endpoint sockets))
             = declaredNavigations env cfg endpoint sockets)"
proof (induction sockets)
  case Nil
  show ?case by (simp add: declaredNavigations_def)
next
  case (Cons entry sockets)
  obtain key socketUrl where entry: "entry = (key, socketUrl)" by (cases entry)
  have declared: "declaredNavigations env cfg endpoint (entry # sockets)
      = fullUrl endpoint socketUrl
        # map (pageUrl cfg endpoint socketUrl)
            (filter (\<lambda>p. 1 < p) (variantPages env endpoint socketUrl))
        @ declaredNavigations env cfg endpoint sockets"
    by (simp add: declaredNavigations_def entry)
  show ?case
  proof (cases "site env (fullUrl endpoint socketUrl)")
    case (Inl e)
    then show ?thesis unfolding declared by (simp add: entry goto_def perform_def)
  next
    case (Inr doc)
    show ?thesis
    proof (cases "readNumPages doc")
      case (Inl e)
      with Inr show ?thesis unfolding declared by (simp add: entry goto_def perform_def)
    next
      case n: (Inr n)
      let ?r = "scrape_pages env cfg endpoint socketUrl doc (pageNumbers n)"
      let ?later = "map (pageUrl cfg endpoint socketUrl) (filter (\<lambda>p. 1 < p) (pageNumbers n))"
      have pages: "variantPages env endpoint socketUrl = pageNumbers n"
        using Inr n by (simp add: variantPages_def)
      note mine = scrape_pages_navigated [of env cfg endpoint socketUrl doc n]
      show ?thesis
      proof (cases "thrown ?r")
        case (Some e)
        have same: "navigated (effects (scrape_sockets env cfg endpoint (entry # sockets)))
                    = fullUrl endpoint socketUrl # navigated (effects ?r)"
          and threw: "thrown (scrape_sockets env cfg endpoint (entry # sockets)) = Some e"
          using Inr n Some by (simp_all add: entry goto_def perform_def Let_def)
        have "fullUrl endpoint socketUrl # navigated (effects ?r)
              = take (length (fullUrl endpoint socketUrl # navigated (effects ?r)))
                  (fullUrl endpoint socketUrl # ?later
                   @ declaredNavigations env cfg endpoint sockets)"
          using mine by (intro take_self_longer) blast
        then show ?thesis
          unfolding same threw declared pages by simp
      next
        case None
        have all: "navigated (effects ?r) = ?later"
          using mine None by simp
        have both: "navigated (effects (scrape_sockets env cfg endpoint (entry # sockets)))
              = fullUrl endpoint socketUrl # ?later
                @ navigated (effects (scrape_sockets env cfg endpoint sockets))"
          and threw: "thrown (scrape_sockets env cfg endpoint (entry # sockets))
              = thrown (scrape_sockets env cfg endpoint sockets)"
          using Inr n None all
          by (simp_all add: entry goto_def perform_def Let_def navigated_append)
        from Cons.IH show ?thesis
          unfolding both threw declared pages by simp
      qed
    qed
  qed
qed

section \<open>The order of the batches and of the navigations\<close>

text \<open>
  C7. The batches that a traversal yields are, one for one and in order, the batches of
  the declared visits: variants in the order of the table, and within a variant the pages
  1 to \<open>numPages\<close> in ascending order. A traversal that throws has yielded the
  batches of the first visits only; one that ends normally has yielded a batch for every
  declared visit. The task writes the concatenation of the yielded batches, in that
  order.
\<close>

theorem batches_in_declared_order:
  "map Inr (yielded (scrape env cfg endpoint))
     = take (length (yielded (scrape env cfg endpoint)))
         (map (\<lambda>(socketUrl, currentPage). pageBatch env cfg endpoint socketUrl currentPage)
            (declaredVisits env endpoint (cpuSockets cfg)))
   \<and> (thrown (scrape env cfg endpoint) = None
        \<longrightarrow> length (yielded (scrape env cfg endpoint))
             = length (declaredVisits env endpoint (cpuSockets cfg)))
   \<and> written (task env cfg out endpoint)
       = written out @ [(jsonPath endpoint, concat (yielded (scrape env cfg endpoint)))]"
  using scrape_sockets_batches [of env cfg endpoint "cpuSockets cfg"]
    task_written [of env cfg out endpoint]
  unfolding scrape_def by blast

theorem batches_in_declared_order_witness:
  "thrown (scrape fx_two_env fx_two ''case'') = None
   \<and> declaredVisits fx_two_env ''case'' (cpuSockets fx_two)
       = [(''#v=1'', 1), (''#v=1'', 2), (''#v=2'', 1), (''#v=2'', 2)]
   \<and> length (yielded (scrape fx_two_env fx_two ''case'')) = 4
   \<and> map Inr (yielded (scrape fx_two_env fx_two ''case''))
       = [pageBatch fx_two_env fx_two ''case'' ''#v=1'' 1,
          pageBatch fx_two_env fx_two ''case'' ''#v=1'' 2,
          pageBatch fx_two_env fx_two ''case'' ''#v=2'' 1,
          pageBatch fx_two_env fx_two ''case'' ''#v=2'' 2]
   \<and> yielded (scrape fx_two_env fx_two ''case'')
       = [[[(''name'', Str ''V1 Fury''), (''price'', Null)]],
          [[(''name'', Str ''V1 Vengeance''), (''price'', Num (12999 / 100)),
            (''speed'', Arr [Str ''DDR4-3200'']), (''color'', Null)]],
          [[(''name'', Str ''V2 Vengeance''), (''price'', Num (12999 / 100)),
            (''speed'', Arr [Str ''DDR4-3200'']), (''color'', Null)],
           [(''name'', Str ''V2 Fury''), (''price'', Null)]],
          []]
   \<and> written (task fx_two_env fx_two \<lparr>console = [], written = []\<rparr> ''case'')
       = [(''data-staging/json/case.json'',
           [[(''name'', Str ''V1 Fury''), (''price'', Null)],
            [(''name'', Str ''V1 Vengeance''), (''price'', Num (12999 / 100)),
             (''speed'', Arr [Str ''DDR4-3200'']), (''color'', Null)],
            [(''name'', Str ''V2 Vengeance''), (''price'', Num (12999 / 100)),
             (''speed'', Arr [Str ''DDR4-3200'']), (''color'', Null)],
            [(''name'', Str ''V2 Fury''), (''price'', Null)]])]"
proof -
  have ended: "thrown (scrape fx_two_env fx_two ''case'') = None" by code_simp
  have visits: "declaredVisits fx_two_env ''case'' (cpuSockets fx_two)
       = [(''#v=1'', 1), (''#v=1'', 2), (''#v=2'', 1), (''#v=2'', 2)]"
    by code_simp
  have batches: "yielded (scrape fx_two_env fx_two ''case'')
       = [[[(''name'', Str ''V1 Fury''), (''price'', Null)]],
          [[(''name'', Str ''V1 Vengeance''), (''price'', Num (12999 / 100)),
            (''speed'', Arr [Str ''DDR4-3200'']), (''color'', Null)]],
          [[(''name'', Str ''V2 Vengeance''), (''price'', Num (12999 / 100)),
            (''speed'', Arr [Str ''DDR4-3200'']), (''color'', Null)],
           [(''name'', Str ''V2 Fury''), (''price'', Null)]],
          []]"
    by code_simp
  have path: "jsonPath ''case'' = ''data-staging/json/case.json''"
    by (simp add: jsonPath_def STAGING_DIRECTORY_def)
  note batches_in_declared_order
    [of fx_two_env fx_two "''case''" "\<lparr>console = [], written = []\<rparr>"]
  then have "length (yielded (scrape fx_two_env fx_two ''case'')) = 4
    \<and> map Inr (yielded (scrape fx_two_env fx_two ''case''))
       = [pageBatch fx_two_env fx_two ''case'' ''#v=1'' 1,
          pageBatch fx_two_env fx_two ''case'' ''#v=1'' 2,
          pageBatch fx_two_env fx_two ''case'' ''#v=2'' 1,
          pageBatch fx_two_env fx_two ''case'' ''#v=2'' 2]
    \<and> written (task fx_two_env fx_two \<lparr>console = [], written = []\<rparr> ''case'')
       = [(jsonPath ''case'', concat (yielded (scrape fx_two_env fx_two ''case'')))]"
    unfolding visits using ended by simp
  then show ?thesis
    unfolding path using ended visits batches by simp
qed

text \<open>
  C10. Whatever the endpoint, a traversal opens the listings of the entries of the one
  table \<open>cpuSockets\<close> of its file, in the order of the table, each followed by its
  later pages: the navigations of a traversal are the first of the declared navigations
  of that table for the endpoint, and all of them, one listing for every entry, when the
  traversal ends normally. The endpoint enters the URLs only; no table is chosen by it.
\<close>

theorem one_variant_table_for_every_endpoint:
  "navigated (effects (scrape env cfg endpoint))
     = take (length (navigated (effects (scrape env cfg endpoint))))
         (declaredNavigations env cfg endpoint (cpuSockets cfg))
   \<and> (thrown (scrape env cfg endpoint) = None
        \<longrightarrow> navigated (effects (scrape env cfg endpoint))
             = concat (map (\<lambda>(key, socketUrl).
                              fullUrl endpoint socketUrl
                              # map (pageUrl cfg endpoint socketUrl)
                                  (filter (\<lambda>p. 1 < p) (variantPages env endpoint socketUrl)))
                         (cpuSockets cfg)))"
  using scrape_sockets_navigated [of env cfg endpoint "cpuSockets cfg"]
  unfolding scrape_def declaredNavigations_def by blast

theorem one_variant_table_for_every_endpoint_witness:
  "thrown (scrape fx_env Motherboard ''webcam'') = None
   \<and> navigated (effects (scrape fx_env Motherboard ''webcam''))
       = [''https://pcpartpicker.com/products/webcam/#mt=ddr2'',
          ''https://pcpartpicker.com/products/webcam/#mt=ddr3'',
          ''https://pcpartpicker.com/products/webcam/#mt=ddr4'',
          ''https://pcpartpicker.com/products/webcam/#mt=ddr5'']
   \<and> thrown (scrape fx_env part_000 ''webcam'') = None
   \<and> length (navigated (effects (scrape fx_env part_000 ''webcam''))) = 25
   \<and> take 2 (navigated (effects (scrape fx_env part_000 ''webcam'')))
       = [''https://pcpartpicker.com/products/webcam/#k=27'',
          ''https://pcpartpicker.com/products/webcam/#k=2'']"
proof -
  have ended: "thrown (scrape fx_env Motherboard ''webcam'') = None" by code_simp
  have declared: "concat (map (\<lambda>(key, socketUrl).
                              fullUrl ''webcam'' socketUrl
                              # map (pageUrl Motherboard ''webcam'' socketUrl)
                                  (filter (\<lambda>p. 1 < p) (variantPages fx_env ''webcam'' socketUrl)))
                         (cpuSockets Motherboard))
       = [''https://pcpartpicker.com/products/webcam/#mt=ddr2'',
          ''https://pcpartpicker.com/products/webcam/#mt=ddr3'',
          ''https://pcpartpicker.com/products/webcam/#mt=ddr4'',
          ''https://pcpartpicker.com/products/webcam/#mt=ddr5'']"
    by code_simp
  have cpu: "thrown (scrape fx_env part_000 ''webcam'') = None
   \<and> length (navigated (effects (scrape fx_env part_000 ''webcam''))) = 25
   \<and> take 2 (navigated (effects (scrape fx_env part_000 ''webcam'')))
       = [''https://pcpartpicker.com/products/webcam/#k=27'',
          ''https://pcpartpicker.com/products/webcam/#k=2'']"
    by code_simp
  note one_variant_table_for_every_endpoint [of fx_env Motherboard "''webcam''"]
  then have "navigated (effects (scrape fx_env Motherboard ''webcam''))
       = [''https://pcpartpicker.com/products/webcam/#mt=ddr2'',
          ''https://pcpartpicker.com/products/webcam/#mt=ddr3'',
          ''https://pcpartpicker.com/products/webcam/#mt=ddr4'',
          ''https://pcpartpicker.com/products/webcam/#mt=ddr5'']"
    unfolding declared using ended by blast
  with ended cpu show ?thesis by blast
qed

section \<open>What a task writes when its traversal throws\<close>

lemma first_failure_unique:
  assumes "map Inr vs @ Inl e # after = map Inr vs' @ Inl e' # after'"
  shows "vs = vs' \<and> e = e' \<and> after = after'"
  using assms
proof (induction vs arbitrary: vs')
  case Nil
  then show ?case by (cases vs') simp_all
next
  case (Cons v vs)
  then show ?case by (cases vs') auto
qed

lemma scrape_pages_later_results:
  assumes "\<forall>p\<in>set ps. 1 < p"
  shows "\<exists>after. map (pageBatch env cfg endpoint socketUrl) ps
           = map Inr (yielded (scrape_pages env cfg endpoint socketUrl doc ps))
             @ (case thrown (scrape_pages env cfg endpoint socketUrl doc ps) of
                  None \<Rightarrow> []
                | Some e \<Rightarrow> Inl e # after)"
  using assms
proof (induction ps arbitrary: doc)
  case Nil
  then show ?case by simp
next
  case (Cons p ps)
  then have later: "1 < p" and rest: "\<forall>p\<in>set ps. 1 < p" by simp_all
  show ?case
  proof (cases "site env (pageUrl cfg endpoint socketUrl p)")
    case (Inl e)
    with later have "pageBatch env cfg endpoint socketUrl p = Inl e"
      by (simp add: pageBatch_def pageDocument_def)
    with later Inl show ?thesis by (simp add: goto_def perform_def)
  next
    case (Inr d)
    obtain es r where rows: "scrape_products env cfg endpoint socketUrl [] (products d) = (es, r)"
      by (cases "scrape_products env cfg endpoint socketUrl [] (products d)") blast
    show ?thesis
    proof (cases r)
      case (Inl e)
      with later Inr rows have "pageBatch env cfg endpoint socketUrl p = Inl e"
        by (simp add: pageBatch_def pageDocument_def)
      with later Inr rows Inl show ?thesis by (simp add: goto_def perform_def)
    next
      case b: (Inr b)
      have batch: "pageBatch env cfg endpoint socketUrl p = Inr b"
        using later Inr rows b by (simp add: pageBatch_def pageDocument_def)
      from Cons.IH [OF rest, of d] obtain after where
        "map (pageBatch env cfg endpoint socketUrl) ps
           = map Inr (yielded (scrape_pages env cfg endpoint socketUrl d ps))
             @ (case thrown (scrape_pages env cfg endpoint socketUrl d ps) of
                  None \<Rightarrow> []
                | Some e \<Rightarrow> Inl e # after)"
        by blast
      with later Inr rows b batch show ?thesis
        by (simp add: goto_def perform_def Let_def) (rule exI [of _ after], rule refl)
    qed
  qed
qed

lemma scrape_pages_results:
  assumes listing: "site env (fullUrl endpoint socketUrl) = Inr doc"
  shows "\<exists>after. map (pageBatch env cfg endpoint socketUrl) (pageNumbers n)
           = map Inr (yielded (scrape_pages env cfg endpoint socketUrl doc (pageNumbers n)))
             @ (case thrown (scrape_pages env cfg endpoint socketUrl doc (pageNumbers n)) of
                  None \<Rightarrow> []
                | Some e \<Rightarrow> Inl e # after)"
proof -
  from pageNumbers_cases [of n] show ?thesis
  proof
    assume "pageNumbers n = []"
    then show ?thesis by simp
  next
    assume "\<exists>ps. pageNumbers n = 1 # ps \<and> (\<forall>p\<in>set ps. 1 < p)"
    then obtain ps where pages: "pageNumbers n = 1 # ps" and later: "\<forall>p\<in>set ps. 1 < p"
      by blast
    obtain es r where rows:
      "scrape_products env cfg endpoint socketUrl [] (products doc) = (es, r)"
      by (cases "scrape_products env cfg endpoint socketUrl [] (products doc)") blast
    show ?thesis
    proof (cases r)
      case (Inl e)
      with listing rows have "pageBatch env cfg endpoint socketUrl 1 = Inl e"
        by (simp add: pageBatch_def pageDocument_def)
      with pages rows Inl show ?thesis by (simp add: ret_def)
    next
      case b: (Inr b)
      have batch: "pageBatch env cfg endpoint socketUrl 1 = Inr b"
        using listing rows b by (simp add: pageBatch_def pageDocument_def)
      from scrape_pages_later_results [OF later, of env cfg endpoint socketUrl doc]
      obtain after where
        "map (pageBatch env cfg endpoint socketUrl) ps
           = map Inr (yielded (scrape_pages env cfg endpoint socketUrl doc ps))
             @ (case thrown (scrape_pages env cfg endpoint socketUrl doc ps) of
                  None \<Rightarrow> []
                | Some e \<Rightarrow> Inl e # after)"
        by blast
      with pages rows b batch show ?thesis
        by (simp add: ret_def Let_def) (rule exI [of _ after], rule refl)
    qed
  qed
qed

lemma page_steps_results:
  assumes "map (pageBatch env cfg endpoint socketUrl) ps
           = map Inr bs @ (case failure of None \<Rightarrow> [] | Some e \<Rightarrow> Inl e # after)"
  shows "map (stepResult env cfg endpoint) (map (Page socketUrl) ps)
           = map Inr (map (\<lambda>b. [b]) bs)
             @ (case failure of
                  None \<Rightarrow> []
                | Some e \<Rightarrow> Inl e # map (\<lambda>r. case r of Inl e \<Rightarrow> Inl e | Inr b \<Rightarrow> Inr [b]) after)"
proof -
  let ?lift = "\<lambda>r. case r of Inl e \<Rightarrow> Inl e | Inr b \<Rightarrow> Inr [b]"
  have "map (stepResult env cfg endpoint) (map (Page socketUrl) ps)
        = map ?lift (map (pageBatch env cfg endpoint socketUrl) ps)"
    by simp
  also have "\<dots> = map ?lift (map Inr bs @ (case failure of None \<Rightarrow> [] | Some e \<Rightarrow> Inl e # after))"
    by (simp only: assms)
  also have "\<dots> = map Inr (map (\<lambda>b. [b]) bs)
                   @ (case failure of None \<Rightarrow> [] | Some e \<Rightarrow> Inl e # map ?lift after)"
    by (cases failure) simp_all
  finally show ?thesis .
qed

lemma scrape_sockets_results:
  "\<exists>batches after.
     map (stepResult env cfg endpoint) (declaredSteps env endpoint sockets)
       = map Inr batches
         @ (case thrown (scrape_sockets env cfg endpoint sockets) of
              None \<Rightarrow> []
            | Some e \<Rightarrow> Inl e # after)
     \<and> yielded (scrape_sockets env cfg endpoint sockets) = concat batches"
proof (induction sockets)
  case Nil
  have "map (stepResult env cfg endpoint) (declaredSteps env endpoint [])
          = map Inr [] @ (case thrown (scrape_sockets env cfg endpoint []) of
                            None \<Rightarrow> [] | Some e \<Rightarrow> Inl e # [])
        \<and> yielded (scrape_sockets env cfg endpoint []) = concat []"
    by (simp add: declaredSteps_def)
  then show ?case by blast
next
  case (Cons entry sockets)
  obtain key socketUrl where entry: "entry = (key, socketUrl)" by (cases entry)
  let ?rest = "map (stepResult env cfg endpoint) (declaredSteps env endpoint sockets)"
  have steps: "declaredSteps env endpoint (entry # sockets)
      = Listing socketUrl # map (Page socketUrl) (variantPages env endpoint socketUrl)
        @ declaredSteps env endpoint sockets"
    by (simp add: declaredSteps_def entry)
  show ?case
  proof (cases "site env (fullUrl endpoint socketUrl)")
    case (Inl e)
    then have "map (stepResult env cfg endpoint) (declaredSteps env endpoint (entry # sockets))
          = map Inr [] @ (case thrown (scrape_sockets env cfg endpoint (entry # sockets)) of
                            None \<Rightarrow> [] | Some e \<Rightarrow> Inl e # ?rest)
        \<and> yielded (scrape_sockets env cfg endpoint (entry # sockets)) = concat []"
      unfolding steps by (simp add: entry goto_def perform_def variantPages_def)
    then show ?thesis by blast
  next
    case (Inr doc)
    show ?thesis
    proof (cases "readNumPages doc")
      case (Inl e)
      with Inr have "map (stepResult env cfg endpoint) (declaredSteps env endpoint (entry # sockets))
          = map Inr [] @ (case thrown (scrape_sockets env cfg endpoint (entry # sockets)) of
                            None \<Rightarrow> [] | Some e \<Rightarrow> Inl e # ?rest)
        \<and> yielded (scrape_sockets env cfg endpoint (entry # sockets)) = concat []"
        unfolding steps by (simp add: entry goto_def perform_def variantPages_def)
      then show ?thesis by blast
    next
      case n: (Inr n)
      let ?r = "scrape_pages env cfg endpoint socketUrl doc (pageNumbers n)"
      let ?lift = "\<lambda>r. case r of Inl e \<Rightarrow> Inl e | Inr b \<Rightarrow> Inr [b]"
      have pages: "variantPages env endpoint socketUrl = pageNumbers n"
        using Inr n by (simp add: variantPages_def)
      have opened: "stepResult env cfg endpoint (Listing socketUrl) = Inr []"
        using Inr n by simp
      from scrape_pages_results [OF Inr, of cfg n] obtain after where
        "map (pageBatch env cfg endpoint socketUrl) (pageNumbers n)
           = map Inr (yielded ?r) @ (case thrown ?r of None \<Rightarrow> [] | Some e \<Rightarrow> Inl e # after)"
        by blast
      note mine = page_steps_results [OF this]
      show ?thesis
      proof (cases "thrown ?r")
        case (Some e)
        have same: "yielded (scrape_sockets env cfg endpoint (entry # sockets)) = yielded ?r"
          and threw: "thrown (scrape_sockets env cfg endpoint (entry # sockets)) = Some e"
          using Inr n Some by (simp_all add: entry goto_def perform_def Let_def)
        have "map (stepResult env cfg endpoint) (declaredSteps env endpoint (entry # sockets))
                = map Inr ([] # map (\<lambda>b. [b]) (yielded ?r))
                  @ (case thrown (scrape_sockets env cfg endpoint (entry # sockets)) of
                       None \<Rightarrow> []
                     | Some e \<Rightarrow> Inl e # (map ?lift after @ ?rest))
              \<and> yielded (scrape_sockets env cfg endpoint (entry # sockets))
                = concat ([] # map (\<lambda>b. [b]) (yielded ?r))"
          unfolding steps same threw pages map_append list.map opened mine Some
          by simp
        then show ?thesis by blast
      next
        case None
        have both: "yielded (scrape_sockets env cfg endpoint (entry # sockets))
              = yielded ?r @ yielded (scrape_sockets env cfg endpoint sockets)"
          and threw: "thrown (scrape_sockets env cfg endpoint (entry # sockets))
              = thrown (scrape_sockets env cfg endpoint sockets)"
          using Inr n None by (simp_all add: entry goto_def perform_def Let_def)
        from Cons.IH obtain batches later where
          rest: "?rest = map Inr batches
                         @ (case thrown (scrape_sockets env cfg endpoint sockets) of
                              None \<Rightarrow> []
                            | Some e \<Rightarrow> Inl e # later)"
          and flat: "yielded (scrape_sockets env cfg endpoint sockets) = concat batches"
          by blast
        have "map (stepResult env cfg endpoint) (declaredSteps env endpoint (entry # sockets))
                = map Inr (([] # map (\<lambda>b. [b]) (yielded ?r)) @ batches)
                  @ (case thrown (scrape_sockets env cfg endpoint (entry # sockets)) of
                       None \<Rightarrow> []
                     | Some e \<Rightarrow> Inl e # later)
              \<and> yielded (scrape_sockets env cfg endpoint (entry # sockets))
                = concat (([] # map (\<lambda>b. [b]) (yielded ?r)) @ batches)"
          unfolding steps both threw pages map_append list.map opened mine None rest flat
          by simp
        then show ?thesis by blast
      qed
    qed
  qed
qed

text \<open>
  C1, as the claim states it, fails: the keyboard listing of the fixture has three rows,
  of which the third has a price that the number serializer rejects. The first two rows
  are extracted without an error, and the traversal of the other endpoint ends normally
  and is written in full; but the file of the keyboard is empty, not the two records:
  the rows of the failing page had been pushed to \<open>pageProducts\<close>, which is yielded
  only after the last row of a page.
\<close>

theorem partial_result_counterexample:
  "products (fx_listing 1 [fx_priced, fx_unpriced, fx_malformed])
     = [fx_priced, fx_unpriced, fx_malformed]
   \<and> site fx_env (fullUrl ''keyboard'' ''#mt=ddr2'')
       = Inr (fx_listing 1 [fx_priced, fx_unpriced, fx_malformed])
   \<and> snd (scrape_products fx_env Motherboard ''keyboard'' ''#mt=ddr2'' [] [fx_priced, fx_unpriced])
       = Inr [[(''name'', Str ''DDR2 Vengeance''), (''price'', Num (12999 / 100)),
               (''speed'', Arr [Str ''DDR4-3200'']), (''color'', Null)],
              [(''name'', Str ''DDR2 Fury''), (''price'', Null)]]
   \<and> snd (scrape_product fx_env Motherboard ''keyboard'' ''#mt=ddr2'' fx_malformed)
       = Inl (SerializerFailed ''Call'')
   \<and> scrapeInParallel fx_env Motherboard [''memory'', ''keyboard'']
       = \<lparr>console = [(''keyboard'', SerializerFailed ''Call'')],
          written =
            [(''data-staging/json/memory.json'',
               [[(''name'', Str ''DDR2 Fury''), (''price'', Null)],
                [(''name'', Str ''DDR2 Vengeance''), (''price'', Num (12999 / 100)),
                 (''speed'', Arr [Str ''DDR4-3200'']), (''color'', Null)]]),
             (''data-staging/json/keyboard.json'', [])]\<rparr>
   \<and> thrown (scrape fx_env Motherboard ''memory'') = None
   \<and> map_of (written (scrapeInParallel fx_env Motherboard [''memory'', ''keyboard'']))
         ''data-staging/json/keyboard.json''
       \<noteq> Some [[(''name'', Str ''DDR2 Vengeance''), (''price'', Num (12999 / 100)),
                  (''speed'', Arr [Str ''DDR4-3200'']), (''color'', Null)],
                 [(''name'', Str ''DDR2 Fury''), (''price'', Null)]]"
  by code_simp

text \<open>
  C1, amended. When the traversal of an endpoint throws, the task logs the endpoint and
  the error and still writes the file of the endpoint, with the batches that the
  traversal had yielded. The first declared step that fails fixes them: the results of
  the declared steps are, in order, successes and then the error that was thrown, and
  the batches yielded are exactly those of the steps before it, each the records of all
  the product rows of a page. Nothing of the failing page is written, also not the
  records of its rows before the failing one. In a seeded run the endpoints before and
  after it are written as they would be without it.
\<close>

theorem failing_traversal_writes_pages_before_failure:
  assumes "thrown (scrape env cfg endpoint) = Some e"
  shows "task env cfg out endpoint
           = \<lparr>console = console out @ [(endpoint, e)],
              written = written out
                        @ [(jsonPath endpoint, concat (yielded (scrape env cfg endpoint)))]\<rparr>
       \<and> (\<exists>batches after.
             map (stepResult env cfg endpoint) (declaredSteps env endpoint (cpuSockets cfg))
               = map Inr batches @ Inl e # after
             \<and> yielded (scrape env cfg endpoint) = concat batches)
       \<and> (seed env = Inr ()
            \<longrightarrow> written (scrapeInParallel env cfg (endpointsBefore @ endpoint # endpointsAfter))
                 = map (\<lambda>other. (jsonPath other, concat (yielded (scrape env cfg other))))
                     endpointsBefore
                   @ (jsonPath endpoint, concat (yielded (scrape env cfg endpoint)))
                   # map (\<lambda>other. (jsonPath other, concat (yielded (scrape env cfg other))))
                       endpointsAfter)"
proof -
  have "task env cfg out endpoint
           = \<lparr>console = console out @ [(endpoint, e)],
              written = written out
                        @ [(jsonPath endpoint, concat (yielded (scrape env cfg endpoint)))]\<rparr>"
    using assms by (simp add: task_def Let_def drain_concat)
  moreover have "\<exists>batches after.
             map (stepResult env cfg endpoint) (declaredSteps env endpoint (cpuSockets cfg))
               = map Inr batches @ Inl e # after
             \<and> yielded (scrape env cfg endpoint) = concat batches"
    using scrape_sockets_results [of env cfg endpoint "cpuSockets cfg"] assms
    unfolding scrape_def by simp
  moreover have "seed env = Inr ()
            \<longrightarrow> written (scrapeInParallel env cfg (endpointsBefore @ endpoint # endpointsAfter))
                 = map (\<lambda>other. (jsonPath other, concat (yielded (scrape env cfg other))))
                     endpointsBefore
                   @ (jsonPath endpoint, concat (yielded (scrape env cfg endpoint)))
                   # map (\<lambda>other. (jsonPath other, concat (yielded (scrape env cfg other))))
                       endpointsAfter"
    by (simp add: seeded_run_written)
  ultimately show ?thesis by blast
qed

theorem failing_traversal_writes_pages_before_failure_witness:
  "thrown (scrape fx_env Motherboard ''mouse'') = Some (NoMappingFound ''color'')
   \<and> declaredSteps fx_env ''mouse'' (cpuSockets Motherboard)
       = [Listing ''#mt=ddr2'', Page ''#mt=ddr2'' 1,
          Listing ''#mt=ddr3'', Page ''#mt=ddr3'' 1, Page ''#mt=ddr3'' 2,
          Listing ''#mt=ddr4'', Page ''#mt=ddr4'' 1,
          Listing ''#mt=ddr5'', Page ''#mt=ddr5'' 1]
   \<and> map (stepResult fx_env Motherboard ''mouse'')
         (declaredSteps fx_env ''mouse'' (cpuSockets Motherboard))
       = map Inr [[],
                  [[[(''name'', Str ''DDR2 Vengeance''), (''price'', Num (12999 / 100)),
                     (''speed'', Arr [Str ''DDR4-3200'']), (''color'', Null)]]],
                  [],
                  [[[(''name'', Str ''DDR3 Fury''), (''price'', Null)]]]]
         @ Inl (NoMappingFound ''color'') # [Inr [], Inr [[]], Inr [], Inr [[]]]
   \<and> yielded (scrape fx_env Motherboard ''mouse'')
       = [[[(''name'', Str ''DDR2 Vengeance''), (''price'', Num (12999 / 100)),
            (''speed'', Arr [Str ''DDR4-3200'']), (''color'', Null)]],
          [[(''name'', Str ''DDR3 Fury''), (''price'', Null)]]]
   \<and> site fx_env (pageUrl Motherboard ''mouse'' ''#mt=ddr3'' 2)
       = Inr (fx_listing 2 [fx_unpriced, fx_unmapped, fx_priced])
   \<and> scrape_product fx_env Motherboard ''mouse'' ''#mt=ddr3'' fx_unpriced
       = ([], Inr [(''name'', Str ''DDR3 Fury''), (''price'', Null)])
   \<and> task fx_env Motherboard \<lparr>console = [], written = []\<rparr> ''mouse''
       = \<lparr>console = [(''mouse'', NoMappingFound ''color'')],
          written =
            [(''data-staging/json/mouse.json'',
               [[(''name'', Str ''DDR2 Vengeance''), (''price'', Num (12999 / 100)),
                 (''speed'', Arr [Str ''DDR4-3200'']), (''color'', Null)],
                [(''name'', Str ''DDR3 Fury''), (''price'', Null)]])]\<rparr>
   \<and> seed fx_env = Inr ()
   \<and> written (scrapeInParallel fx_env Motherboard ([''memory''] @ ''mouse'' # [''webcam'']))
       = [(''data-staging/json/memory.json'',
            [[(''name'', Str ''DDR2 Fury''), (''price'', Null)],
             [(''name'', Str ''DDR2 Vengeance''), (''price'', Num (12999 / 100)),
              (''speed'', Arr [Str ''DDR4-3200'']), (''color'', Null)]]),
          (''data-staging/json/mouse.json'',
            [[(''name'', Str ''DDR2 Vengeance''), (''price'', Num (12999 / 100)),
              (''speed'', Arr [Str ''DDR4-3200'']), (''color'', Null)],
             [(''name'', Str ''DDR3 Fury''), (''price'', Null)]]),
          (''data-staging/json/webcam.json'', [])]"
proof -
  let ?batches = "[[],
                  [[[(''name'', Str ''DDR2 Vengeance''), (''price'', Num (12999 / 100)),
                     (''speed'', Arr [Str ''DDR4-3200'']), (''color'', Null :: rat jsvalue)]]],
                  [],
                  [[[(''name'', Str ''DDR3 Fury''), (''price'', Null)]]]]"
  have threw: "thrown (scrape fx_env Motherboard ''mouse'') = Some (NoMappingFound ''color'')"
    by code_simp
  have steps: "declaredSteps fx_env ''mouse'' (cpuSockets Motherboard)
       = [Listing ''#mt=ddr2'', Page ''#mt=ddr2'' 1,
          Listing ''#mt=ddr3'', Page ''#mt=ddr3'' 1, Page ''#mt=ddr3'' 2,
          Listing ''#mt=ddr4'', Page ''#mt=ddr4'' 1,
          Listing ''#mt=ddr5'', Page ''#mt=ddr5'' 1]"
    by code_simp
  have results: "map (stepResult fx_env Motherboard ''mouse'')
         (declaredSteps fx_env ''mouse'' (cpuSockets Motherboard))
       = map Inr ?batches
         @ Inl (NoMappingFound ''color'') # [Inr [], Inr [[]], Inr [], Inr [[]]]"
    by code_simp
  have failing: "site fx_env (pageUrl Motherboard ''mouse'' ''#mt=ddr3'' 2)
       = Inr (fx_listing 2 [fx_unpriced, fx_unmapped, fx_priced])"
    by code_simp
  have lost: "scrape_product fx_env Motherboard ''mouse'' ''#mt=ddr3'' fx_unpriced
       = ([], Inr [(''name'', Str ''DDR3 Fury''), (''price'', Null)])"
    by code_simp
  have path: "jsonPath ''mouse'' = ''data-staging/json/mouse.json''"
    by (simp add: jsonPath_def STAGING_DIRECTORY_def)
  have seeded: "seed fx_env = Inr ()" by code_simp
  have before: "map (\<lambda>other. (jsonPath other,
                                concat (yielded (scrape fx_env Motherboard other))))
                  [''memory'']
       = [(''data-staging/json/memory.json'',
            [[(''name'', Str ''DDR2 Fury''), (''price'', Null)],
             [(''name'', Str ''DDR2 Vengeance''), (''price'', Num (12999 / 100)),
              (''speed'', Arr [Str ''DDR4-3200'']), (''color'', Null)]])]"
    by code_simp
  have after: "map (\<lambda>other. (jsonPath other,
                               concat (yielded (scrape fx_env Motherboard other))))
                 [''webcam'']
       = [(''data-staging/json/webcam.json'', [])]"
    by code_simp
  note claim = failing_traversal_writes_pages_before_failure
    [OF threw, of "\<lparr>console = [], written = []\<rparr>" "[''memory'']" "[''webcam'']"]
  from claim obtain batches later where
    "map (stepResult fx_env Motherboard ''mouse'')
       (declaredSteps fx_env ''mouse'' (cpuSockets Motherboard))
     = map Inr batches @ Inl (NoMappingFound ''color'') # later"
    and flat: "yielded (scrape fx_env Motherboard ''mouse'') = concat batches"
    by blast
  with results have "map Inr ?batches
         @ Inl (NoMappingFound ''color'') # [Inr [], Inr [[]], Inr [], Inr [[]]]
       = map Inr batches @ Inl (NoMappingFound ''color'') # later"
    by simp
  then have "?batches = batches" by (rule first_failure_unique [THEN conjunct1])
  with flat have pages: "yielded (scrape fx_env Motherboard ''mouse'')
       = [[[(''name'', Str ''DDR2 Vengeance''), (''price'', Num (12999 / 100)),
            (''speed'', Arr [Str ''DDR4-3200'']), (''color'', Null)]],
          [[(''name'', Str ''DDR3 Fury''), (''price'', Null)]]]"
    by auto
  from claim seeded have "task fx_env Motherboard \<lparr>console = [], written = []\<rparr> ''mouse''
       = \<lparr>console = [(''mouse'', NoMappingFound ''color'')],
          written =
            [(''data-staging/json/mouse.json'',
               [[(''name'', Str ''DDR2 Vengeance''), (''price'', Num (12999 / 100)),
                 (''speed'', Arr [Str ''DDR4-3200'']), (''color'', Null)],
                [(''name'', Str ''DDR3 Fury''), (''price'', Null)]])]\<rparr>
   \<and> written (scrapeInParallel fx_env Motherboard ([''memory''] @ ''mouse'' # [''webcam'']))
       = [(''data-staging/json/memory.json'',
            [[(''name'', Str ''DDR2 Fury''), (''price'', Null)],
             [(''name'', Str ''DDR2 Vengeance''), (''price'', Num (12999 / 100)),
              (''speed'', Arr [Str ''DDR4-3200'']), (''color'', Null)]]),
          (''data-staging/json/mouse.json'',
            [[(''name'', Str ''DDR2 Vengeance''), (''price'', Num (12999 / 100)),
              (''speed'', Arr [Str ''DDR4-3200'']), (''color'', Null)],
             [(''name'', Str ''DDR3 Fury''), (''price'', Null)]]),
          (''data-staging/json/webcam.json'', [])]"
    unfolding pages path before after by simp
  with threw steps results pages failing lost seeded show ?thesis by blast
qed

section \<open>An error ends the traversal of its category\<close>

lemma scrape_product_throws_at_cell:
  assumes "nameText productEl = Some title"
    and "priceCell productEl = PriceCell priceText"
    and "scrape_price env
           [(''name'', Str (socketName (cpuSockets cfg) socketUrl @ '' '' @ title))] priceText
         = (es1, Inr s1)"
    and "specs productEl = cellsBefore @ spec # cellsAfter"
    and "scrape_specs env endpoint s1 cellsBefore = (es2, Inr s2)"
    and "scrape_spec env endpoint s2 spec = (es3, Inl e)"
  shows "scrape_product env cfg endpoint socketUrl productEl = (es1 @ es2 @ es3, Inl e)"
  using assms
  by (simp add: scrape_product_def and_then_def scrape_specs_append)

lemma scrape_products_throw_at_row:
  assumes "scrape_products env cfg endpoint socketUrl acc rowsBefore = (es1, Inr acc')"
    and "scrape_product env cfg endpoint socketUrl productEl = (es2, Inl e)"
  shows "scrape_products env cfg endpoint socketUrl acc (rowsBefore @ productEl # rowsAfter)
         = (es1 @ es2, Inl e)"
  using assms by (simp add: scrape_products_append)

lemma scrape_pages_throw_at_page:
  assumes listing: "site env (fullUrl endpoint socketUrl) = Inr listing"
    and pages: "pageNumbers numPages = pagesBefore @ currentPage # pagesAfter"
    and before: "thrown (scrape_pages env cfg endpoint socketUrl listing pagesBefore) = None"
    and doc: "pageDocument env cfg endpoint socketUrl currentPage = Inr doc"
    and rows: "scrape_products env cfg endpoint socketUrl [] (products doc) = (es, Inl e)"
  shows "scrape_pages env cfg endpoint socketUrl listing (pageNumbers numPages)
         = \<lparr>effects = effects (scrape_pages env cfg endpoint socketUrl listing pagesBefore)
                      @ (if 1 < currentPage
                         then [Goto (pageUrl cfg endpoint socketUrl currentPage)] else [])
                      @ es,
            yielded = yielded (scrape_pages env cfg endpoint socketUrl listing pagesBefore),
            thrown = Some e\<rparr>"
proof -
  from pageNumbers_cases [of numPages] pages obtain ps where
    first: "pageNumbers numPages = 1 # ps" and later: "\<forall>p\<in>set ps. 1 < p"
    by auto
  show ?thesis
  proof (cases pagesBefore)
    case Nil
    with pages first have one: "currentPage = 1" by simp
    with doc listing have "doc = listing" by (simp add: pageDocument_def)
    with rows one Nil pages show ?thesis by (simp add: ret_def)
  next
    case (Cons q qs)
    with pages first have "ps = qs @ currentPage # pagesAfter" by simp
    with later have late: "\<forall>p\<in>set (currentPage # pagesAfter). 1 < p" by simp
    then have "1 < currentPage" by simp
    with doc rows have
      "scrape_pages env cfg endpoint socketUrl listing (currentPage # pagesAfter)
       = \<lparr>effects = [Goto (pageUrl cfg endpoint socketUrl currentPage)] @ es,
          yielded = [], thrown = Some e\<rparr>"
      by (simp add: pageDocument_def goto_def perform_def)
    with scrape_pages_append_later [OF before late] \<open>1 < currentPage\<close> show ?thesis
      unfolding pages by simp
  qed
qed

lemma scrape_sockets_throw_at_variant:
  assumes before: "thrown (scrape_sockets env cfg endpoint socketsBefore) = None"
    and listing: "site env (fullUrl endpoint socketUrl) = Inr listing"
    and control: "readNumPages listing = Inr numPages"
    and pages: "thrown (scrape_pages env cfg endpoint socketUrl listing (pageNumbers numPages))
                = Some e"
  shows "scrape_sockets env cfg endpoint (socketsBefore @ (key, socketUrl) # socketsAfter)
         = \<lparr>effects = effects (scrape_sockets env cfg endpoint socketsBefore)
                      @ Goto (fullUrl endpoint socketUrl)
                      # effects (scrape_pages env cfg endpoint socketUrl listing
                                  (pageNumbers numPages)),
            yielded = yielded (scrape_sockets env cfg endpoint socketsBefore)
                      @ yielded (scrape_pages env cfg endpoint socketUrl listing
                                   (pageNumbers numPages)),
            thrown = Some e\<rparr>"
proof -
  have "scrape_sockets env cfg endpoint ((key, socketUrl) # socketsAfter)
        = \<lparr>effects = Goto (fullUrl endpoint socketUrl)
                     # effects (scrape_pages env cfg endpoint socketUrl listing
                                 (pageNumbers numPages)),
           yielded = yielded (scrape_pages env cfg endpoint socketUrl listing
                                (pageNumbers numPages)),
           thrown = Some e\<rparr>"
    using listing control pages by (simp add: goto_def perform_def Let_def)
  with before show ?thesis
    by (simp add: scrape_sockets_append)
qed

lemma cell_error_ends_the_category:
  assumes name: "nameText productEl = Some title"
    and cell: "priceCell productEl = PriceCell priceText"
    and price: "scrape_price env
                  [(''name'', Str (socketName (cpuSockets cfg) socketUrl @ '' '' @ title))]
                  priceText = (es1, Inr s1)"
    and cells: "specs productEl = cellsBefore @ spec # cellsAfter"
    and cellsBefore: "scrape_specs env endpoint s1 cellsBefore = (es2, Inr s2)"
    and here: "scrape_spec env endpoint s2 spec = (es4, Inl e)"
    and doc: "pageDocument env cfg endpoint socketUrl currentPage = Inr doc"
    and rows: "products doc = rowsBefore @ productEl # rowsAfter"
    and rowsBefore: "scrape_products env cfg endpoint socketUrl [] rowsBefore = (es3, Inr records)"
    and listing: "site env (fullUrl endpoint socketUrl) = Inr listing"
    and control: "readNumPages listing = Inr numPages"
    and pages: "pageNumbers numPages = pagesBefore @ currentPage # pagesAfter"
    and pagesBefore: "thrown (scrape_pages env cfg endpoint socketUrl listing pagesBefore) = None"
    and sockets: "cpuSockets cfg = socketsBefore @ (key, socketUrl) # socketsAfter"
    and socketsBefore: "thrown (scrape_sockets env cfg endpoint socketsBefore) = None"
    and seeded: "seed env = Inr ()"
  shows "scrape env cfg endpoint
           = \<lparr>effects = effects (scrape_sockets env cfg endpoint socketsBefore)
                        @ Goto (fullUrl endpoint socketUrl)
                        # effects (scrape_pages env cfg endpoint socketUrl listing pagesBefore)
                        @ (if 1 < currentPage
                           then [Goto (pageUrl cfg endpoint socketUrl currentPage)] else [])
                        @ es3 @ es1 @ es2 @ es4,
              yielded = yielded (scrape_sockets env cfg endpoint socketsBefore)
                        @ yielded (scrape_pages env cfg endpoint socketUrl listing pagesBefore),
              thrown = Some e\<rparr>
       \<and> written (scrapeInParallel env cfg (endpointsBefore @ endpoint # endpointsAfter))
           = written (scrapeInParallel env cfg endpointsBefore)
             @ (jsonPath endpoint,
                concat (yielded (scrape_sockets env cfg endpoint socketsBefore)
                        @ yielded (scrape_pages env cfg endpoint socketUrl listing pagesBefore)))
             # map (\<lambda>other. (jsonPath other, concat (yielded (scrape env cfg other))))
                 endpointsAfter
       \<and> console (scrapeInParallel env cfg (endpointsBefore @ endpoint # endpointsAfter))
           = console (scrapeInParallel env cfg endpointsBefore)
             @ (endpoint, e)
             # concat (map (\<lambda>other. case thrown (scrape env cfg other) of
                                         None \<Rightarrow> []
                                       | Some e \<Rightarrow> [(other, e)]) endpointsAfter)"
proof -
  let ?before = "scrape_pages env cfg endpoint socketUrl listing pagesBefore"
  have row: "scrape_product env cfg endpoint socketUrl productEl = (es1 @ es2 @ es4, Inl e)"
    by (rule scrape_product_throws_at_cell [OF name cell price cells cellsBefore here])
  have page: "scrape_products env cfg endpoint socketUrl [] (products doc)
              = (es3 @ es1 @ es2 @ es4, Inl e)"
    unfolding rows by (rule scrape_products_throw_at_row [OF rowsBefore row])
  note variant = scrape_pages_throw_at_page [OF listing pages pagesBefore doc page]
  then have threw: "thrown (scrape_pages env cfg endpoint socketUrl listing (pageNumbers numPages))
                    = Some e"
    by simp
  have traversal: "scrape env cfg endpoint
           = \<lparr>effects = effects (scrape_sockets env cfg endpoint socketsBefore)
                        @ Goto (fullUrl endpoint socketUrl)
                        # effects ?before
                        @ (if 1 < currentPage
                           then [Goto (pageUrl cfg endpoint socketUrl currentPage)] else [])
                        @ es3 @ es1 @ es2 @ es4,
              yielded = yielded (scrape_sockets env cfg endpoint socketsBefore)
                        @ yielded ?before,
              thrown = Some e\<rparr>"
    unfolding scrape_def sockets
    using scrape_sockets_throw_at_variant [OF socketsBefore listing control threw, of key socketsAfter]
    by (simp add: variant)
  have files: "written (scrapeInParallel env cfg (endpointsBefore @ endpoint # endpointsAfter))
           = written (scrapeInParallel env cfg endpointsBefore)
             @ (jsonPath endpoint, concat (yielded (scrape env cfg endpoint)))
             # map (\<lambda>other. (jsonPath other, concat (yielded (scrape env cfg other))))
                 endpointsAfter"
    by (simp add: seeded_run_written [OF seeded])
  have warnings: "console (scrapeInParallel env cfg (endpointsBefore @ endpoint # endpointsAfter))
           = console (scrapeInParallel env cfg endpointsBefore)
             @ (case thrown (scrape env cfg endpoint) of None \<Rightarrow> [] | Some e \<Rightarrow> [(endpoint, e)])
             @ concat (map (\<lambda>other. case thrown (scrape env cfg other) of
                                         None \<Rightarrow> []
                                       | Some e \<Rightarrow> [(other, e)]) endpointsAfter)"
    by (simp add: seeded_run_console [OF seeded])
  from traversal files warnings show ?thesis by simp
qed

lemma scrape_spec_unowned_label:
  assumes "specLabel spec = Some label"
    and "serializationMap env endpoint = Some table"
    and "table (trim label) = None"
  shows "scrape_spec env endpoint serialized spec
         = ([], Inl (if trim label \<in> set objectPrototype then TypeError
                     else NoMappingFound (trim label)))"
  using assms by (simp add: scrape_spec_def getProperty_def raise_def)

lemma unowned_label_ends_the_category:
  assumes label: "specLabel spec = Some label"
    and map: "serializationMap env endpoint = Some table"
    and unowned: "table (trim label) = None"
    and error: "e = (if trim label \<in> set objectPrototype then TypeError
                     else NoMappingFound (trim label))"
    and name: "nameText productEl = Some title"
    and cell: "priceCell productEl = PriceCell priceText"
    and price: "scrape_price env
                  [(''name'', Str (socketName (cpuSockets cfg) socketUrl @ '' '' @ title))]
                  priceText = (es1, Inr s1)"
    and cells: "specs productEl = cellsBefore @ spec # cellsAfter"
    and cellsBefore: "scrape_specs env endpoint s1 cellsBefore = (es2, Inr s2)"
    and doc: "pageDocument env cfg endpoint socketUrl currentPage = Inr doc"
    and rows: "products doc = rowsBefore @ productEl # rowsAfter"
    and rowsBefore: "scrape_products env cfg endpoint socketUrl [] rowsBefore = (es3, Inr records)"
    and listing: "site env (fullUrl endpoint socketUrl) = Inr listing"
    and control: "readNumPages listing = Inr numPages"
    and pages: "pageNumbers numPages = pagesBefore @ currentPage # pagesAfter"
    and pagesBefore: "thrown (scrape_pages env cfg endpoint socketUrl listing pagesBefore) = None"
    and sockets: "cpuSockets cfg = socketsBefore @ (key, socketUrl) # socketsAfter"
    and socketsBefore: "thrown (scrape_sockets env cfg endpoint socketsBefore) = None"
    and seeded: "seed env = Inr ()"
  shows "scrape env cfg endpoint
           = \<lparr>effects = effects (scrape_sockets env cfg endpoint socketsBefore)
                        @ Goto (fullUrl endpoint socketUrl)
                        # effects (scrape_pages env cfg endpoint socketUrl listing pagesBefore)
                        @ (if 1 < currentPage
                           then [Goto (pageUrl cfg endpoint socketUrl currentPage)] else [])
                        @ es3 @ es1 @ es2,
              yielded = yielded (scrape_sockets env cfg endpoint socketsBefore)
                        @ yielded (scrape_pages env cfg endpoint socketUrl listing pagesBefore),
              thrown = Some e\<rparr>
       \<and> written (scrapeInParallel env cfg (endpointsBefore @ endpoint # endpointsAfter))
           = written (scrapeInParallel env cfg endpointsBefore)
             @ (jsonPath endpoint,
                concat (yielded (scrape_sockets env cfg endpoint socketsBefore)
                        @ yielded (scrape_pages env cfg endpoint socketUrl listing pagesBefore)))
             # map (\<lambda>other. (jsonPath other, concat (yielded (scrape env cfg other))))
                 endpointsAfter
       \<and> console (scrapeInParallel env cfg (endpointsBefore @ endpoint # endpointsAfter))
           = console (scrapeInParallel env cfg endpointsBefore)
             @ (endpoint, e)
             # concat (map (\<lambda>other. case thrown (scrape env cfg other) of
                                         None \<Rightarrow> []
                                       | Some e \<Rightarrow> [(other, e)]) endpointsAfter)"
proof -
  have here: "scrape_spec env endpoint s2 spec = ([], Inl e)"
    unfolding error by (rule scrape_spec_unowned_label [OF label map unowned])
  note cell_error_ends_the_category
    [OF name cell price cells cellsBefore here doc rows rowsBefore listing control pages
      pagesBefore sockets socketsBefore seeded, of endpointsBefore endpointsAfter]
  then show ?thesis by simp
qed

text \<open>
  C6. The label of a spec cell is trimmed and looked up, as it is, in the map of the
  endpoint, and a label that finds nothing is reported with \<open>No mapping found\<close>;
  the error ends the traversal of the endpoint only (the lemma above). But the test of
  line 164 is \<open>typeof mapped === 'undefined'\<close>, and a label that the table does not
  own finds a member of \<open>Object.prototype\<close> when it has the name of one. The
  listing of \<open>speakers\<close> in the fixture has a row with a cell labelled
  \<open>constructor\<close>, for which the table has no entry: there the loop body throws a
  \<open>TypeError\<close> (\<open>mapped is not iterable\<close>, line 167) and not
  \<open>No mapping found\<close>, which it throws for the label \<open>color\<close>, and the
  warning of the run carries the \<open>TypeError\<close>. The traversal ends at that cell
  all the same, its first page is written, and the next endpoint is scraped.
\<close>

theorem inherited_label_is_not_unmapped:
  "fx_table ''constructor'' = None
   \<and> ''constructor'' \<in> set objectPrototype
   \<and> specLabel fx_constructor = Some '' constructor ''
   \<and> scrape_spec fx_env ''speakers''
         [(''name'', Str ''DDR2 Pebble''), (''price'', Num (12999 / 100)),
          (''color'', Str ''Black'')] fx_constructor
       = ([], Inl TypeError)
   \<and> scrape_spec fx_env ''speakers''
         [(''name'', Str ''DDR2 Pebble''), (''price'', Num (12999 / 100)),
          (''color'', Str ''Black'')] fx_constructor
       \<noteq> ([], Inl (NoMappingFound ''constructor''))
   \<and> scrape_spec fx_env ''speakers''
         [(''name'', Str ''DDR2 Pebble''), (''price'', Num (12999 / 100)),
          (''color'', Str ''Black'')] fx_lower_case
       = ([], Inl (NoMappingFound ''color''))
   \<and> scrape fx_env Motherboard ''speakers''
       = \<lparr>effects = [Goto ''https://pcpartpicker.com/products/speakers/#mt=ddr2'',
                     Goto ''https://pcpartpicker.com/products/speakers/#mt=ddr2&page=2'',
                     SerializeNumber '' $129.99 '',
                     GenericSerialize ''Black'' ''string''],
          yielded = [[[(''name'', Str ''DDR2 Fury''), (''price'', Null)]]],
          thrown = Some TypeError\<rparr>
   \<and> scrapeInParallel fx_env Motherboard [''speakers'', ''memory'']
       = \<lparr>console = [(''speakers'', TypeError)],
          written =
            [(''data-staging/json/speakers.json'',
               [[(''name'', Str ''DDR2 Fury''), (''price'', Null)]]),
             (''data-staging/json/memory.json'',
               [[(''name'', Str ''DDR2 Fury''), (''price'', Null)],
                [(''name'', Str ''DDR2 Vengeance''), (''price'', Num (12999 / 100)),
                 (''speed'', Arr [Str ''DDR4-3200'']), (''color'', Null)]])]\<rparr>"
  by code_simp

section \<open>Custom serializers that are not registered\<close>

text \<open>
  C3, as the claim states it, fails: nothing checks the registry of custom serializers
  before the traversals begin. In the fixture with an empty registry the map marks
  \<open>Speed\<close> as custom for the endpoint \<open>memory\<close>. The run is seeded, the
  traversal of \<open>memory\<close> starts, yields its first page (whose row has no spec cell)
  and extracts the price of the row of the second page before the call of the missing
  serializer raises a \<open>TypeError\<close> at that row. The error ends this traversal only:
  the warning is logged, the first page is written, and the next endpoint is scraped.
\<close>

theorem unregistered_custom_counterexample:
  "serializationMap fx_unregistered ''memory'' = Some fx_table
   \<and> fx_table ''Speed'' = Some (''speed'', ''custom'')
   \<and> customSerializers fx_unregistered ''memory'' = None
   \<and> seed fx_unregistered = Inr ()
   \<and> scrape fx_unregistered Motherboard ''memory''
       = \<lparr>effects = [Goto ''https://pcpartpicker.com/products/memory/#mt=ddr2'',
                     Goto ''https://pcpartpicker.com/products/memory/#mt=ddr2&page=2'',
                     SerializeNumber '' $129.99 ''],
          yielded = [[[(''name'', Str ''DDR2 Fury''), (''price'', Null)]]],
          thrown = Some TypeError\<rparr>
   \<and> scrapeInParallel fx_unregistered Motherboard [''memory'', ''webcam'']
       = \<lparr>console = [(''memory'', TypeError)],
          written = [(''data-staging/json/memory.json'',
                       [[(''name'', Str ''DDR2 Fury''), (''price'', Null)]]),
                     (''data-staging/json/webcam.json'', [])]\<rparr>"
proof -
  have table: "serializationMap fx_unregistered ''memory'' = Some fx_table"
    by (simp add: fx_unregistered_def fx_env_def fx_map_def)
  have custom: "fx_table ''Speed'' = Some (''speed'', ''custom'')" by code_simp
  have none: "customSerializers fx_unregistered ''memory'' = None"
    by (simp add: fx_unregistered_def)
  have seeded: "seed fx_unregistered = Inr ()" by code_simp
  have traversal: "scrape fx_unregistered Motherboard ''memory''
       = \<lparr>effects = [Goto ''https://pcpartpicker.com/products/memory/#mt=ddr2'',
                     Goto ''https://pcpartpicker.com/products/memory/#mt=ddr2&page=2'',
                     SerializeNumber '' $129.99 ''],
          yielded = [[[(''name'', Str ''DDR2 Fury''), (''price'', Null)]]],
          thrown = Some TypeError\<rparr>"
    by code_simp
  have run: "scrapeInParallel fx_unregistered Motherboard [''memory'', ''webcam'']
       = \<lparr>console = [(''memory'', TypeError)],
          written = [(''data-staging/json/memory.json'',
                       [[(''name'', Str ''DDR2 Fury''), (''price'', Null)]]),
                     (''data-staging/json/webcam.json'', [])]\<rparr>"
    by code_simp
  show ?thesis by (intro conjI table custom none seeded traversal run)
qed

text \<open>
  C3, amended. The registry of custom serializers is read in one place only: in the loop
  body, for a cell whose field is marked custom and whose text does not trim to the
  empty string. When no function is registered for the endpoint and the field (and the
  field does not have the name of a member of \<open>Object.prototype\<close>, which would be
  found and called in its place), the body throws a \<open>TypeError\<close> without a
  serializer call. Wherever the traversal meets such a cell (after the cells, rows,
  pages and variants before it were processed without an error), it ends there with
  that error, having yielded the batches of the variants and pages before. The run goes
  on: the warning is logged with the endpoint, the file of the endpoint is written with
  those batches, and the endpoints after it are scraped and written as they would be
  alone.
\<close>

theorem unregistered_custom_ends_the_category:
  assumes label: "specLabel spec = Some label"
    and map: "serializationMap env endpoint = Some table"
    and custom: "table (trim label) = Some (field, ''custom'')"
    and filled: "trim (innerText spec) \<noteq> []"
    and missing: "customSerializers env endpoint = None
                  \<or> (\<exists>registered. customSerializers env endpoint = Some registered
                                   \<and> registered field = None
                                   \<and> field \<notin> set objectPrototype)"
    and name: "nameText productEl = Some title"
    and cell: "priceCell productEl = PriceCell priceText"
    and price: "scrape_price env
                  [(''name'', Str (socketName (cpuSockets cfg) socketUrl @ '' '' @ title))]
                  priceText = (es1, Inr s1)"
    and cells: "specs productEl = cellsBefore @ spec # cellsAfter"
    and cellsBefore: "scrape_specs env endpoint s1 cellsBefore = (es2, Inr s2)"
    and doc: "pageDocument env cfg endpoint socketUrl currentPage = Inr doc"
    and rows: "products doc = rowsBefore @ productEl # rowsAfter"
    and rowsBefore: "scrape_products env cfg endpoint socketUrl [] rowsBefore = (es3, Inr records)"
    and listing: "site env (fullUrl endpoint socketUrl) = Inr listing"
    and control: "readNumPages listing = Inr numPages"
    and pages: "pageNumbers numPages = pagesBefore @ currentPage # pagesAfter"
    and pagesBefore: "thrown (scrape_pages env cfg endpoint socketUrl listing pagesBefore) = None"
    and sockets: "cpuSockets cfg = socketsBefore @ (key, socketUrl) # socketsAfter"
    and socketsBefore: "thrown (scrape_sockets env cfg endpoint socketsBefore) = None"
    and seeded: "seed env = Inr ()"
  shows "scrape_spec env endpoint s2 spec = ([], Inl TypeError)
       \<and> scrape env cfg endpoint
           = \<lparr>effects = effects (scrape_sockets env cfg endpoint socketsBefore)
                        @ Goto (fullUrl endpoint socketUrl)
                        # effects (scrape_pages env cfg endpoint socketUrl listing pagesBefore)
                        @ (if 1 < currentPage
                           then [Goto (pageUrl cfg endpoint socketUrl currentPage)] else [])
                        @ es3 @ es1 @ es2,
              yielded = yielded (scrape_sockets env cfg endpoint socketsBefore)
                        @ yielded (scrape_pages env cfg endpoint socketUrl listing pagesBefore),
              thrown = Some TypeError\<rparr>
       \<and> written (scrapeInParallel env cfg (endpointsBefore @ endpoint # endpointsAfter))
           = written (scrapeInParallel env cfg endpointsBefore)
             @ (jsonPath endpoint,
                concat (yielded (scrape_sockets env cfg endpoint socketsBefore)
                        @ yielded (scrape_pages env cfg endpoint socketUrl listing pagesBefore)))
             # map (\<lambda>other. (jsonPath other, concat (yielded (scrape env cfg other))))
                 endpointsAfter
       \<and> console (scrapeInParallel env cfg (endpointsBefore @ endpoint # endpointsAfter))
           = console (scrapeInParallel env cfg endpointsBefore)
             @ (endpoint, TypeError)
             # concat (map (\<lambda>other. case thrown (scrape env cfg other) of
                                         None \<Rightarrow> []
                                       | Some e \<Rightarrow> [(other, e)]) endpointsAfter)"
proof -
  have here: "scrape_spec env endpoint s2 spec = ([], Inl TypeError)"
    using label map custom filled missing
    by (auto simp: scrape_spec_def getProperty_def raise_def)
  note cell_error_ends_the_category
    [OF name cell price cells cellsBefore here doc rows rowsBefore listing control pages
      pagesBefore sockets socketsBefore seeded, of endpointsBefore endpointsAfter]
  with here show ?thesis by simp
qed

theorem unregistered_custom_ends_the_category_witness:
  "fx_table (trim '' Speed '') = Some (''speed'', ''custom'')
   \<and> trim (innerText fx_speed_cell) = ''DDR4-3200''
   \<and> ''speed'' \<notin> set objectPrototype
   \<and> specs fx_priced = [] @ fx_speed_cell # [fx_blank]
   \<and> products (fx_listing 2 [fx_unpriced, fx_priced, fx_unpriced])
       = [fx_unpriced] @ fx_priced # [fx_unpriced]
   \<and> seed fx_env = Inr ()
   \<and> scrape_spec fx_env ''headphones''
         [(''name'', Str ''DDR2 Vengeance''), (''price'', Num (12999 / 100))] fx_speed_cell
       = ([], Inl TypeError)
   \<and> scrape fx_env Motherboard ''headphones''
       = \<lparr>effects = [Goto ''https://pcpartpicker.com/products/headphones/#mt=ddr2'',
                     Goto ''https://pcpartpicker.com/products/headphones/#mt=ddr2&page=2'',
                     SerializeNumber '' $129.99 ''],
          yielded = [[[(''name'', Str ''DDR2 Fury''), (''price'', Null)]]],
          thrown = Some TypeError\<rparr>
   \<and> written (scrapeInParallel fx_env Motherboard [''memory'', ''headphones'', ''webcam''])
       = [(''data-staging/json/memory.json'',
            [[(''name'', Str ''DDR2 Fury''), (''price'', Null)],
             [(''name'', Str ''DDR2 Vengeance''), (''price'', Num (12999 / 100)),
              (''speed'', Arr [Str ''DDR4-3200'']), (''color'', Null)]]),
          (''data-staging/json/headphones.json'',
            [[(''name'', Str ''DDR2 Fury''), (''price'', Null)]]),
          (''data-staging/json/webcam.json'', [])]
   \<and> console (scrapeInParallel fx_env Motherboard [''memory'', ''headphones'', ''webcam''])
       = [(''headphones'', TypeError)]"
proof -
  have label: "specLabel fx_speed_cell = Some '' Speed ''" by code_simp
  have table: "serializationMap fx_env ''headphones'' = Some fx_table"
    by (simp add: fx_env_def fx_map_def)
  have custom: "fx_table (trim '' Speed '') = Some (''speed'', ''custom'')" by code_simp
  have content: "trim (innerText fx_speed_cell) = ''DDR4-3200''" by code_simp
  then have filled: "trim (innerText fx_speed_cell) \<noteq> []" by simp
  have registry: "customSerializers fx_env ''headphones'' = Some Map.empty"
    by (simp add: fx_env_def fx_custom_def)
  have own: "''speed'' \<notin> set objectPrototype" by code_simp
  from registry own have missing:
    "customSerializers fx_env ''headphones'' = None
     \<or> (\<exists>registered. customSerializers fx_env ''headphones'' = Some registered
                      \<and> registered ''speed'' = None
                      \<and> ''speed'' \<notin> set objectPrototype)"
    by simp
  have name: "nameText fx_priced = Some ''Vengeance''" by code_simp
  have cell: "priceCell fx_priced = PriceCell (Some '' $129.99 '')" by code_simp
  have price: "scrape_price fx_env
                 [(''name'', Str (socketName (cpuSockets Motherboard) ''#mt=ddr2''
                                  @ '' '' @ ''Vengeance''))] (Some '' $129.99 '')
               = ([SerializeNumber '' $129.99 ''],
                  Inr [(''name'', Str ''DDR2 Vengeance''), (''price'', Num (12999 / 100))])"
    by code_simp
  have cells: "specs fx_priced = [] @ fx_speed_cell # [fx_blank]"
    by (simp add: fx_priced_def)
  have cellsBefore: "scrape_specs fx_env ''headphones''
                       [(''name'', Str ''DDR2 Vengeance''), (''price'', Num (12999 / 100))] []
       = ([], Inr [(''name'', Str ''DDR2 Vengeance''), (''price'', Num (12999 / 100))])"
    by code_simp
  have doc: "pageDocument fx_env Motherboard ''headphones'' ''#mt=ddr2'' 2
             = Inr (fx_listing 2 [fx_unpriced, fx_priced, fx_unpriced])"
    by code_simp
  have rows: "products (fx_listing 2 [fx_unpriced, fx_priced, fx_unpriced])
              = [fx_unpriced] @ fx_priced # [fx_unpriced]"
    by (simp add: fx_listing_def)
  have rowsBefore: "scrape_products fx_env Motherboard ''headphones'' ''#mt=ddr2'' [] [fx_unpriced]
                    = ([], Inr [[(''name'', Str ''DDR2 Fury''), (''price'', Null)]])"
    by code_simp
  have listing: "site fx_env (fullUrl ''headphones'' ''#mt=ddr2'')
                 = Inr (fx_listing 2 [fx_unpriced])"
    by code_simp
  have control: "readNumPages (fx_listing 2 [fx_unpriced]) = Inr (Some 2)" by code_simp
  have pages: "pageNumbers (Some 2) = [1] @ 2 # []" by code_simp
  have pagesBefore:
    "thrown (scrape_pages fx_env Motherboard ''headphones'' ''#mt=ddr2''
               (fx_listing 2 [fx_unpriced]) [1])
     = None"
    by code_simp
  have sockets: "cpuSockets Motherboard
       = [] @ (''DDR2'', ''#mt=ddr2'')
         # [(''DDR3'', ''#mt=ddr3''), (''DDR4'', ''#mt=ddr4''), (''DDR5'', ''#mt=ddr5'')]"
    by (simp add: Motherboard_def cpuSockets_Motherboard_def)
  have socketsBefore: "thrown (scrape_sockets fx_env Motherboard ''headphones'' []) = None"
    by simp
  have seeded: "seed fx_env = Inr ()" by code_simp
  have e1: "scrape_sockets fx_env Motherboard ''headphones'' []
            = \<lparr>effects = [], yielded = [], thrown = None\<rparr>"
    by simp
  have e2: "scrape_pages fx_env Motherboard ''headphones'' ''#mt=ddr2''
              (fx_listing 2 [fx_unpriced]) [1]
       = \<lparr>effects = [], yielded = [[[(''name'', Str ''DDR2 Fury''), (''price'', Null)]]],
          thrown = None\<rparr>"
    by code_simp
  have e4: "fullUrl ''headphones'' ''#mt=ddr2''
            = ''https://pcpartpicker.com/products/headphones/#mt=ddr2''"
    by code_simp
  have e5: "pageUrl Motherboard ''headphones'' ''#mt=ddr2'' 2
            = ''https://pcpartpicker.com/products/headphones/#mt=ddr2&page=2''"
    by code_simp
  have e6: "jsonPath ''headphones'' = ''data-staging/json/headphones.json''" by code_simp
  have e7: "written (scrapeInParallel fx_env Motherboard [''memory''])
       = [(''data-staging/json/memory.json'',
            [[(''name'', Str ''DDR2 Fury''), (''price'', Null)],
             [(''name'', Str ''DDR2 Vengeance''), (''price'', Num (12999 / 100)),
              (''speed'', Arr [Str ''DDR4-3200'']), (''color'', Null)]])]"
    by code_simp
  have e8: "console (scrapeInParallel fx_env Motherboard [''memory'']) = []" by code_simp
  have e9: "map (\<lambda>other. (jsonPath other, concat (yielded (scrape fx_env Motherboard other))))
              [''webcam'']
            = [(''data-staging/json/webcam.json'', [])]"
    by code_simp
  have e10: "concat (map (\<lambda>other. case thrown (scrape fx_env Motherboard other) of
                                     None \<Rightarrow> []
                                   | Some e \<Rightarrow> [(other, e)]) [''webcam''])
             = []"
    by code_simp
  note unregistered_custom_ends_the_category
    [OF label table custom filled missing name cell price cells cellsBefore doc rows rowsBefore
      listing control pages pagesBefore sockets socketsBefore seeded,
      of "[''memory'']" "[''webcam'']"]
  then have "scrape_spec fx_env ''headphones''
         [(''name'', Str ''DDR2 Vengeance''), (''price'', Num (12999 / 100))] fx_speed_cell
       = ([], Inl TypeError)
   \<and> scrape fx_env Motherboard ''headphones''
       = \<lparr>effects = [Goto ''https://pcpartpicker.com/products/headphones/#mt=ddr2'',
                     Goto ''https://pcpartpicker.com/products/headphones/#mt=ddr2&page=2'',
                     SerializeNumber '' $129.99 ''],
          yielded = [[[(''name'', Str ''DDR2 Fury''), (''price'', Null)]]],
          thrown = Some TypeError\<rparr>
   \<and> written (scrapeInParallel fx_env Motherboard [''memory'', ''headphones'', ''webcam''])
       = [(''data-staging/json/memory.json'',
            [[(''name'', Str ''DDR2 Fury''), (''price'', Null)],
             [(''name'', Str ''DDR2 Vengeance''), (''price'', Num (12999 / 100)),
              (''speed'', Arr [Str ''DDR4-3200'']), (''color'', Null)]]),
          (''data-staging/json/headphones.json'',
            [[(''name'', Str ''DDR2 Fury''), (''price'', Null)]]),
          (''data-staging/json/webcam.json'', [])]
   \<and> console (scrapeInParallel fx_env Motherboard [''memory'', ''headphones'', ''webcam''])
       = [(''headphones'', TypeError)]"
    unfolding e1 e2 e4 e5 e6 e7 e8 e9 e10 by simp
  with custom content own cells rows seeded show ?thesis by blast
qed

end
